theory Spec2Isabelle
  imports Main
begin

section \<open>The schema applier of setup-database.js\<close>

text \<open>
  The script declares four collection descriptors and walks them once, top to bottom,
  awaiting one remote call at a time. The model below follows the source line by line:
  every \<^verbatim>\<open>console.log\<close>, every awaited call together with its outcome, and every
  \<^verbatim>\<open>setTimeout\<close> pause is one event of a trace; the remote service is a parameter that
  answers each call from its own state.
\<close>

subsection \<open>JavaScript values read from the descriptors\<close>

text \<open>
  A descriptor property that the object literal leaves out reads as \<^verbatim>\<open>undefined\<close>.
  Numbers in the descriptors are integers.
\<close>

datatype jsval = JUndefined | JNull | JBool bool | JNum int | JStr string

fun truthy :: "jsval \<Rightarrow> bool" where
  "truthy JUndefined = False"
| "truthy JNull = False"
| "truthy (JBool b) = b"
| "truthy (JNum n) = (n \<noteq> 0)"
| "truthy (JStr s) = (s \<noteq> [])"

text \<open>The operator \<^verbatim>\<open>a || b\<close>: the left operand when it is truthy, else the right one.\<close>

definition js_or :: "jsval \<Rightarrow> jsval \<Rightarrow> jsval" where
  "js_or a b = (if truthy a then a else b)"

text \<open>\<^verbatim>\<open>s.includes(t)\<close>: \<open>t\<close> occurs in \<open>s\<close> as a contiguous run of characters.\<close>

fun starts_with :: "string \<Rightarrow> string \<Rightarrow> bool" where
  "starts_with s [] = True"
| "starts_with [] (c # t) = False"
| "starts_with (d # s) (c # t) = (d = c \<and> starts_with s t)"

fun js_includes :: "string \<Rightarrow> string \<Rightarrow> bool" where
  "js_includes [] t = (t = [])"
| "js_includes (d # s) t = (starts_with (d # s) t \<or> js_includes s t)"

subsection \<open>Descriptors\<close>

text \<open>
  Field descriptor: the properties \<^verbatim>\<open>key\<close>, \<^verbatim>\<open>type\<close>, \<^verbatim>\<open>size\<close>, \<^verbatim>\<open>required\<close>,
  \<^verbatim>\<open>default\<close>, \<^verbatim>\<open>array\<close>, and the two properties \<^verbatim>\<open>min\<close> and \<^verbatim>\<open>max\<close> that the
  create calls read although no descriptor declares them.
\<close>

record attr =
  attr_key :: string
  attr_type :: string
  attr_size :: jsval
  attr_required :: bool
  attr_default :: jsval
  attr_array :: jsval
  attr_min :: jsval
  attr_max :: jsval

text \<open>
  Index descriptor: \<^verbatim>\<open>key\<close>, \<^verbatim>\<open>type\<close>, \<^verbatim>\<open>attributes\<close>, the optional \<^verbatim>\<open>orders\<close>
  (\<open>None\<close> when the literal leaves it out) and the optional \<^verbatim>\<open>unique\<close> flag.
\<close>

record index =
  index_key :: string
  index_type :: string
  index_attributes :: "string list"
  index_orders :: "string list option"
  index_unique :: jsval

text \<open>
  Collection descriptor: \<^verbatim>\<open>id\<close> comes from the process environment and is \<open>None\<close> when
  the variable is unset; \<^verbatim>\<open>name\<close> is what \<^verbatim>\<open>ID.unique()\<close> returned.
\<close>

record collection =
  coll_id :: "string option"
  coll_name :: string
  coll_attributes :: "attr list"
  coll_indexes :: "index list"

subsection \<open>Remote calls, their outcomes, and the trace\<close>

text \<open>
  The arguments of each call are kept in the order the source passes them; the first one
  is always \<^verbatim>\<open>process.env.APPWRITE_DATABASE_ID\<close>, the second the collection identifier.
\<close>

datatype call =
  GetCollection "string option" string
| CreateStringAttribute "string option" string string jsval bool jsval jsval
| CreateIntegerAttribute "string option" string string bool jsval jsval jsval jsval
| CreateFloatAttribute "string option" string string bool jsval jsval jsval jsval
| CreateBooleanAttribute "string option" string string bool jsval jsval
| CreateDatetimeAttribute "string option" string string bool jsval jsval
| CreateIndex "string option" string string string "string list" "string list"

text \<open>
  An awaited call either resolves or rejects with an \<^verbatim>\<open>Error\<close> object, whose
  \<^verbatim>\<open>message\<close> is a string.
\<close>

datatype response = Resolved | Rejected string

text \<open>
  \<open>Log\<close> carries the arguments of one \<^verbatim>\<open>console.log\<close>; \<open>Delay\<close> the milliseconds of one
  awaited \<^verbatim>\<open>setTimeout\<close>.
\<close>

datatype event = Log "string list" | Call call response | Delay nat

type_synonym 'r remote = "'r \<Rightarrow> call \<Rightarrow> response \<times> 'r"

subsection \<open>The switch on the field kind\<close>

text \<open>
  Lines 138 to 199: the call built for a descriptor, or \<open>None\<close> in the
  \<^verbatim>\<open>default:\<close> branch.
\<close>

definition createAttribute :: "string option \<Rightarrow> string \<Rightarrow> attr \<Rightarrow> call option" where
  "createAttribute db cid a =
     (if attr_type a = ''string'' then
        Some (CreateStringAttribute db cid (attr_key a) (attr_size a) (attr_required a)
               (js_or (attr_default a) JNull) (js_or (attr_array a) (JBool False)))
      else if attr_type a = ''integer'' then
        Some (CreateIntegerAttribute db cid (attr_key a) (attr_required a)
               (js_or (attr_min a) JNull) (js_or (attr_max a) JNull)
               (js_or (attr_default a) JNull) (js_or (attr_array a) (JBool False)))
      else if attr_type a = ''double'' then
        Some (CreateFloatAttribute db cid (attr_key a) (attr_required a)
               (js_or (attr_min a) JNull) (js_or (attr_max a) JNull)
               (js_or (attr_default a) JNull) (js_or (attr_array a) (JBool False)))
      else if attr_type a = ''boolean'' then
        Some (CreateBooleanAttribute db cid (attr_key a) (attr_required a)
               (js_or (attr_default a) JNull) (js_or (attr_array a) (JBool False)))
      else if attr_type a = ''datetime'' then
        Some (CreateDatetimeAttribute db cid (attr_key a) (attr_required a)
               (js_or (attr_default a) JNull) (js_or (attr_array a) (JBool False)))
      else None)"

text \<open>Lines 234 to 241: the call built for an index descriptor.\<close>

definition createIndex :: "string option \<Rightarrow> string \<Rightarrow> index \<Rightarrow> call" where
  "createIndex db cid i =
     CreateIndex db cid (index_key i) (index_type i) (index_attributes i)
       (case index_orders i of None \<Rightarrow> [] | Some os \<Rightarrow> os)"

subsection \<open>Console lines\<close>

definition show_id :: "string option \<Rightarrow> string" where
  "show_id i = (case i of None \<Rightarrow> ''undefined'' | Some s \<Rightarrow> s)"

definition log_collection :: "collection \<Rightarrow> event" where
  "log_collection c =
     Log [CHR 0x0A # ''[COLLECTION] Setting up collection: '' @ coll_name c
          @ '' (ID: '' @ show_id (coll_id c) @ '')'']"

definition log_no_id :: "collection \<Rightarrow> event" where
  "log_no_id c =
     Log [''   [ERROR] Collection ID not found for '' @ coll_name c
          @ ''. Please check your .env file.'']"

definition log_found :: "collection \<Rightarrow> event" where
  "log_found c =
     Log [''   [OK] Collection '' @ [CHR 0x27] @ coll_name c @ [CHR 0x27] @ '' found'']"

definition log_process :: "collection \<Rightarrow> event" where
  "log_process c = Log [''   [PROCESS] Creating attributes for '' @ coll_name c @ ''...'']"

definition log_unknown_type :: "attr \<Rightarrow> event" where
  "log_unknown_type a =
     Log [''     [WARN] Unknown attribute type: '' @ attr_type a @ '' for '' @ attr_key a]"

definition log_attr_ok :: "attr \<Rightarrow> event" where
  "log_attr_ok a =
     Log [''     [OK] Created attribute: '' @ attr_key a @ '' ('' @ attr_type a
          @ (if truthy (attr_array a) then ''[]'' else '''') @ '')'']"

definition log_attr_skip :: "attr \<Rightarrow> event" where
  "log_attr_skip a =
     Log [''     [SKIP] Attribute '' @ attr_key a @ '' already exists, skipping...'']"

definition log_attr_error :: "attr \<Rightarrow> string \<Rightarrow> event" where
  "log_attr_error a m =
     Log [''     [ERROR] Failed to create attribute '' @ attr_key a @ '':'', m]"

definition log_wait :: event where
  "log_wait = Log [''   [WAIT] Waiting for attributes to be ready...'']"

definition log_index :: "collection \<Rightarrow> event" where
  "log_index c = Log [''   [INDEX] Creating indexes for '' @ coll_name c @ ''...'']"

definition log_index_ok :: "index \<Rightarrow> event" where
  "log_index_ok i = Log [''     [OK] Created index: '' @ index_key i]"

definition log_index_skip :: "index \<Rightarrow> event" where
  "log_index_skip i =
     Log [''     [SKIP] Index '' @ index_key i @ '' already exists, skipping...'']"

definition log_index_error :: "index \<Rightarrow> string \<Rightarrow> event" where
  "log_index_error i m =
     Log [''     [ERROR] Failed to create index '' @ index_key i @ '':'', m]"

definition log_not_found :: "collection \<Rightarrow> event" where
  "log_not_found c =
     Log [''   [ERROR] Collection '' @ coll_name c
          @ '' not found. Please verify collection ID: '' @ show_id (coll_id c)]"

definition log_collection_error :: "collection \<Rightarrow> string \<Rightarrow> event" where
  "log_collection_error c m =
     Log [''   [ERROR] Error setting up collection '' @ coll_name c @ '':'', m]"

subsection \<open>The loops\<close>

text \<open>
  A \<^verbatim>\<open>for (const x of xs)\<close> whose body neither breaks nor returns: the body runs on each
  element in order, from the remote state the previous one left, and the traces are
  laid end to end. (The \<^verbatim>\<open>continue\<close> statements of the source only end the body.)
\<close>

fun for_each :: "('a \<Rightarrow> 'r \<Rightarrow> event list \<times> 'r) \<Rightarrow> 'a list \<Rightarrow> 'r \<Rightarrow> event list \<times> 'r" where
  "for_each body [] r = ([], r)"
| "for_each body (x # xs) r =
     (case body x r of (t1, r1) \<Rightarrow>
        (case for_each body xs r1 of (t2, r2) \<Rightarrow> (t1 @ t2, r2)))"

text \<open>
  Lines 135 to 221, one field descriptor: the switch, the awaited create call, the
  success line and the 100 ms pause inside the \<^verbatim>\<open>try\<close>, and the \<^verbatim>\<open>catch\<close> that
  tells an already-existing attribute from any other failure.
\<close>

definition attribute_body ::
  "'r remote \<Rightarrow> string option \<Rightarrow> string \<Rightarrow> attr \<Rightarrow> 'r \<Rightarrow> event list \<times> 'r" where
  "attribute_body rem db cid a r =
     (case createAttribute db cid a of
        None \<Rightarrow> ([log_unknown_type a], r)
      | Some c \<Rightarrow>
          (case rem r c of
             (Resolved, r') \<Rightarrow> ([Call c Resolved, log_attr_ok a, Delay 100], r')
           | (Rejected m, r') \<Rightarrow>
               ([Call c (Rejected m),
                 if js_includes m ''already exists'' \<or> js_includes m ''Attribute already exists''
                 then log_attr_skip a else log_attr_error a m], r')))"

text \<open>Lines 233 to 260, one index descriptor.\<close>

definition index_body ::
  "'r remote \<Rightarrow> string option \<Rightarrow> string \<Rightarrow> index \<Rightarrow> 'r \<Rightarrow> event list \<times> 'r" where
  "index_body rem db cid i r =
     (case rem r (createIndex db cid i) of
        (Resolved, r') \<Rightarrow> ([Call (createIndex db cid i) Resolved, log_index_ok i, Delay 200], r')
      | (Rejected m, r') \<Rightarrow>
          ([Call (createIndex db cid i) (Rejected m),
            if js_includes m ''already exists'' \<or> js_includes m ''Index already exists''
            then log_index_skip i else log_index_error i m], r'))"

text \<open>
  Lines 112 to 274, one collection descriptor. \<^verbatim>\<open>!collection.id\<close> holds for an unset
  and for an empty identifier. The outer \<^verbatim>\<open>catch\<close> can only receive the rejection of
  \<^verbatim>\<open>getCollection\<close>: both inner loops catch the rejections of their own calls, and their
  handlers do not throw. A descriptor without \<^verbatim>\<open>indexes\<close> behaves as one with the empty
  list.
\<close>

definition collection_body ::
  "'r remote \<Rightarrow> string option \<Rightarrow> collection \<Rightarrow> 'r \<Rightarrow> event list \<times> 'r" where
  "collection_body rem db c r =
     (case coll_id c of
        None \<Rightarrow> ([log_collection c, log_no_id c], r)
      | Some cid \<Rightarrow>
          if cid = [] then ([log_collection c, log_no_id c], r)
          else
            (case rem r (GetCollection db cid) of
               (Rejected m, r1) \<Rightarrow>
                 ([log_collection c, Call (GetCollection db cid) (Rejected m),
                   if js_includes m ''not found'' then log_not_found c
                   else log_collection_error c m], r1)
             | (Resolved, r1) \<Rightarrow>
                 (case for_each (attribute_body rem db cid) (coll_attributes c) r1 of
                    (ta, r2) \<Rightarrow>
                      if coll_indexes c \<noteq> [] then
                        (case for_each (index_body rem db cid) (coll_indexes c) r2 of
                           (ti, r3) \<Rightarrow>
                             ([log_collection c, Call (GetCollection db cid) Resolved,
                               log_found c, log_process c]
                              @ ta @ [log_wait, Delay 3000] @ [log_index c] @ ti, r3))
                      else
                        ([log_collection c, Call (GetCollection db cid) Resolved,
                          log_found c, log_process c]
                         @ ta @ [log_wait, Delay 3000], r2))))"

text \<open>Lines 111 to 275: the loop over the collection descriptors.\<close>

definition apply_collections ::
  "'r remote \<Rightarrow> string option \<Rightarrow> collection list \<Rightarrow> 'r \<Rightarrow> event list \<times> 'r" where
  "apply_collections rem db cs r = for_each (collection_body rem db) cs r"

subsection \<open>The declared schema\<close>

text \<open>Lines 25 to 108: the four descriptors, in the order of the source.\<close>

definition creators_attributes :: "attr list" where
  "creators_attributes =
     [\<lparr>attr_key = ''user_id'', attr_type = ''string'', attr_size = JNum 255, attr_required = True,
        attr_default = JUndefined, attr_array = JUndefined, attr_min = JUndefined, attr_max = JUndefined\<rparr>,
      \<lparr>attr_key = ''channel_name'', attr_type = ''string'', attr_size = JNum 256, attr_required = True,
        attr_default = JUndefined, attr_array = JUndefined, attr_min = JUndefined, attr_max = JUndefined\<rparr>,
      \<lparr>attr_key = ''handle'', attr_type = ''string'', attr_size = JNum 50, attr_required = True,
        attr_default = JUndefined, attr_array = JUndefined, attr_min = JUndefined, attr_max = JUndefined\<rparr>,
      \<lparr>attr_key = ''avatar_url'', attr_type = ''string'', attr_size = JNum 2048, attr_required = False,
        attr_default = JUndefined, attr_array = JUndefined, attr_min = JUndefined, attr_max = JUndefined\<rparr>,
      \<lparr>attr_key = ''banner_url'', attr_type = ''string'', attr_size = JNum 2048, attr_required = False,
        attr_default = JUndefined, attr_array = JUndefined, attr_min = JUndefined, attr_max = JUndefined\<rparr>,
      \<lparr>attr_key = ''bio'', attr_type = ''string'', attr_size = JNum 2000, attr_required = False,
        attr_default = JUndefined, attr_array = JUndefined, attr_min = JUndefined, attr_max = JUndefined\<rparr>,
      \<lparr>attr_key = ''subscribers'', attr_type = ''integer'', attr_size = JUndefined, attr_required = True,
        attr_default = JNum 0, attr_array = JUndefined, attr_min = JUndefined, attr_max = JUndefined\<rparr>,
      \<lparr>attr_key = ''total_views'', attr_type = ''integer'', attr_size = JUndefined, attr_required = True,
        attr_default = JNum 0, attr_array = JUndefined, attr_min = JUndefined, attr_max = JUndefined\<rparr>,
      \<lparr>attr_key = ''is_verified'', attr_type = ''boolean'', attr_size = JUndefined, attr_required = True,
        attr_default = JBool False, attr_array = JUndefined, attr_min = JUndefined, attr_max = JUndefined\<rparr>]"

definition creators_indexes :: "index list" where
  "creators_indexes =
     [\<lparr>index_key = ''user_id_index'', index_type = ''key'', index_attributes = [''user_id''],
        index_orders = None, index_unique = JUndefined\<rparr>,
      \<lparr>index_key = ''handle_index'', index_type = ''key'', index_attributes = [''handle''],
        index_orders = None, index_unique = JBool True\<rparr>]"

definition videos_attributes :: "attr list" where
  "videos_attributes =
     [\<lparr>attr_key = ''title'', attr_type = ''string'', attr_size = JNum 256, attr_required = True,
        attr_default = JUndefined, attr_array = JUndefined, attr_min = JUndefined, attr_max = JUndefined\<rparr>,
      \<lparr>attr_key = ''description'', attr_type = ''string'', attr_size = JNum 5000, attr_required = False,
        attr_default = JUndefined, attr_array = JUndefined, attr_min = JUndefined, attr_max = JUndefined\<rparr>,
      \<lparr>attr_key = ''creator_id'', attr_type = ''string'', attr_size = JNum 255, attr_required = True,
        attr_default = JUndefined, attr_array = JUndefined, attr_min = JUndefined, attr_max = JUndefined\<rparr>,
      \<lparr>attr_key = ''video_file_id'', attr_type = ''string'', attr_size = JNum 255, attr_required = True,
        attr_default = JUndefined, attr_array = JUndefined, attr_min = JUndefined, attr_max = JUndefined\<rparr>,
      \<lparr>attr_key = ''thumbnail_url'', attr_type = ''string'', attr_size = JNum 2048, attr_required = True,
        attr_default = JUndefined, attr_array = JUndefined, attr_min = JUndefined, attr_max = JUndefined\<rparr>,
      \<lparr>attr_key = ''duration'', attr_type = ''integer'', attr_size = JUndefined, attr_required = True,
        attr_default = JUndefined, attr_array = JUndefined, attr_min = JUndefined, attr_max = JUndefined\<rparr>,
      \<lparr>attr_key = ''genre'', attr_type = ''string'', attr_size = JNum 50, attr_required = True,
        attr_default = JUndefined, attr_array = JUndefined, attr_min = JUndefined, attr_max = JUndefined\<rparr>,
      \<lparr>attr_key = ''tags'', attr_type = ''string'', attr_size = JNum 5000, attr_required = False,
        attr_default = JUndefined, attr_array = JBool True, attr_min = JUndefined, attr_max = JUndefined\<rparr>,
      \<lparr>attr_key = ''status'', attr_type = ''string'', attr_size = JNum 20, attr_required = True,
        attr_default = JStr ''draft'', attr_array = JUndefined, attr_min = JUndefined, attr_max = JUndefined\<rparr>,
      \<lparr>attr_key = ''view_count'', attr_type = ''integer'', attr_size = JUndefined, attr_required = True,
        attr_default = JNum 0, attr_array = JUndefined, attr_min = JUndefined, attr_max = JUndefined\<rparr>,
      \<lparr>attr_key = ''like_count'', attr_type = ''integer'', attr_size = JUndefined, attr_required = True,
        attr_default = JNum 0, attr_array = JUndefined, attr_min = JUndefined, attr_max = JUndefined\<rparr>,
      \<lparr>attr_key = ''is_premium'', attr_type = ''boolean'', attr_size = JUndefined, attr_required = True,
        attr_default = JBool False, attr_array = JUndefined, attr_min = JUndefined, attr_max = JUndefined\<rparr>,
      \<lparr>attr_key = ''release_date'', attr_type = ''datetime'', attr_size = JUndefined, attr_required = True,
        attr_default = JUndefined, attr_array = JUndefined, attr_min = JUndefined, attr_max = JUndefined\<rparr>]"

definition videos_indexes :: "index list" where
  "videos_indexes =
     [\<lparr>index_key = ''creator_index'', index_type = ''key'', index_attributes = [''creator_id''],
        index_orders = None, index_unique = JUndefined\<rparr>,
      \<lparr>index_key = ''status_genre_index'', index_type = ''key'', index_attributes = [''status'', ''genre''],
        index_orders = None, index_unique = JUndefined\<rparr>]"

definition comments_attributes :: "attr list" where
  "comments_attributes =
     [\<lparr>attr_key = ''video_id'', attr_type = ''string'', attr_size = JNum 255, attr_required = True,
        attr_default = JUndefined, attr_array = JUndefined, attr_min = JUndefined, attr_max = JUndefined\<rparr>,
      \<lparr>attr_key = ''user_id'', attr_type = ''string'', attr_size = JNum 255, attr_required = True,
        attr_default = JUndefined, attr_array = JUndefined, attr_min = JUndefined, attr_max = JUndefined\<rparr>,
      \<lparr>attr_key = ''content'', attr_type = ''string'', attr_size = JNum 2000, attr_required = True,
        attr_default = JUndefined, attr_array = JUndefined, attr_min = JUndefined, attr_max = JUndefined\<rparr>,
      \<lparr>attr_key = ''parent_id'', attr_type = ''string'', attr_size = JNum 255, attr_required = False,
        attr_default = JUndefined, attr_array = JUndefined, attr_min = JUndefined, attr_max = JUndefined\<rparr>,
      \<lparr>attr_key = ''likes'', attr_type = ''integer'', attr_size = JUndefined, attr_required = True,
        attr_default = JNum 0, attr_array = JUndefined, attr_min = JUndefined, attr_max = JUndefined\<rparr>,
      \<lparr>attr_key = ''is_deleted'', attr_type = ''boolean'', attr_size = JUndefined, attr_required = True,
        attr_default = JBool False, attr_array = JUndefined, attr_min = JUndefined, attr_max = JUndefined\<rparr>]"

definition comments_indexes :: "index list" where
  "comments_indexes =
     [\<lparr>index_key = ''video_index'', index_type = ''key'', index_attributes = [''video_id''],
        index_orders = None, index_unique = JUndefined\<rparr>,
      \<lparr>index_key = ''parent_index'', index_type = ''key'', index_attributes = [''parent_id''],
        index_orders = None, index_unique = JUndefined\<rparr>]"

definition tags_attributes :: "attr list" where
  "tags_attributes =
     [\<lparr>attr_key = ''name'', attr_type = ''string'', attr_size = JNum 50, attr_required = True,
        attr_default = JUndefined, attr_array = JUndefined, attr_min = JUndefined, attr_max = JUndefined\<rparr>,
      \<lparr>attr_key = ''count'', attr_type = ''integer'', attr_size = JUndefined, attr_required = True,
        attr_default = JNum 0, attr_array = JUndefined, attr_min = JUndefined, attr_max = JUndefined\<rparr>]"

definition tags_indexes :: "index list" where
  "tags_indexes =
     [\<lparr>index_key = ''name_index'', index_type = ''key'', index_attributes = [''name''],
        index_orders = None, index_unique = JBool True\<rparr>]"

text \<open>The variables of the process environment that the script reads.\<close>

record env =
  APPWRITE_DATABASE_ID :: "string option"
  CREATORS_COLLECTION_ID :: "string option"
  VIDEOS_COLLECTION_ID :: "string option"
  COMMENTS_COLLECTION_ID :: "string option"
  TAGS_COLLECTION_ID :: "string option"

text \<open>
  \<open>names k\<close> is what the \<open>k\<close>-th evaluation of \<^verbatim>\<open>ID.unique()\<close> returned; the function
  belongs to the client library and is a parameter here.
\<close>

definition collections :: "env \<Rightarrow> (nat \<Rightarrow> string) \<Rightarrow> collection list" where
  "collections e names =
     [\<lparr>coll_id = CREATORS_COLLECTION_ID e, coll_name = names 0,
        coll_attributes = creators_attributes, coll_indexes = creators_indexes\<rparr>,
      \<lparr>coll_id = VIDEOS_COLLECTION_ID e, coll_name = names 1,
        coll_attributes = videos_attributes, coll_indexes = videos_indexes\<rparr>,
      \<lparr>coll_id = COMMENTS_COLLECTION_ID e, coll_name = names 2,
        coll_attributes = comments_attributes, coll_indexes = comments_indexes\<rparr>,
      \<lparr>coll_id = TAGS_COLLECTION_ID e, coll_name = names 3,
        coll_attributes = tags_attributes, coll_indexes = tags_indexes\<rparr>]"

subsection \<open>The run\<close>

definition log_start :: event where
  "log_start = Log [''[START] Starting ArbanTv database attributes setup...'']"

definition log_summary :: "event list" where
  "log_summary =
     [Log [CHR 0x0A # ''[SUCCESS] Database attributes setup completed!''],
      Log [CHR 0x0A # ''[INFO] Summary of ArbanTv collections configured:''],
      Log [''  - Creators: Channel profiles, stats, and verification''],
      Log [''  - Videos: Video metadata, storage links, and engagement''],
      Log [''  - Comments: Threaded comments for videos''],
      Log [''  - Tags: Normalized tags for trending discovery''],
      Log [CHR 0x0A # ''[SUCCESS] Your ArbanTv database schema is ready!'']]"

text \<open>
  Lines 20 to 289. Nothing inside the outer \<^verbatim>\<open>try\<close> throws past the per-collection
  \<^verbatim>\<open>catch\<close>, so the handler of line 285 with its \<^verbatim>\<open>process.exit(1)\<close> has no branch
  here and the promise always resolves.
\<close>

definition setupDatabase :: "env \<Rightarrow> (nat \<Rightarrow> string) \<Rightarrow> 'r remote \<Rightarrow> 'r \<Rightarrow> event list \<times> 'r" where
  "setupDatabase e names rem r =
     (case apply_collections rem (APPWRITE_DATABASE_ID e) (collections e names) r of
        (t, r') \<Rightarrow> (log_start # t @ log_summary, r'))"

text \<open>
  Lines 292 to 302, the script run directly: the \<^verbatim>\<open>then\<close> handler logs and calls
  \<^verbatim>\<open>process.exit(0)\<close>. The result is the trace, the exit code and the remote state.
\<close>

definition main_entry ::
  "env \<Rightarrow> (nat \<Rightarrow> string) \<Rightarrow> 'r remote \<Rightarrow> 'r \<Rightarrow> event list \<times> int \<times> 'r" where
  "main_entry e names rem r =
     (case setupDatabase e names rem r of
        (t, r') \<Rightarrow> (t @ [Log [''Setup completed successfully'']], 0, r'))"

subsection \<open>Reading a trace\<close>

fun calls :: "event list \<Rightarrow> call list" where
  "calls [] = []"
| "calls (Call c x # t) = c # calls t"
| "calls (Log l # t) = calls t"
| "calls (Delay n # t) = calls t"

fun is_field_call :: "call \<Rightarrow> bool" where
  "is_field_call (GetCollection db cid) = False"
| "is_field_call (CreateStringAttribute db cid k sz rq df ar) = True"
| "is_field_call (CreateIntegerAttribute db cid k rq mn mx df ar) = True"
| "is_field_call (CreateFloatAttribute db cid k rq mn mx df ar) = True"
| "is_field_call (CreateBooleanAttribute db cid k rq df ar) = True"
| "is_field_call (CreateDatetimeAttribute db cid k rq df ar) = True"
| "is_field_call (CreateIndex db cid k ty ks os) = False"

fun is_index_call :: "call \<Rightarrow> bool" where
  "is_index_call (CreateIndex db cid k ty ks os) = True"
| "is_index_call c = False"

definition field_calls :: "event list \<Rightarrow> call list" where
  "field_calls t = filter is_field_call (calls t)"

definition index_calls :: "event list \<Rightarrow> call list" where
  "index_calls t = filter is_index_call (calls t)"

text \<open>Every call of the trace resolved.\<close>

fun all_resolved :: "event list \<Rightarrow> bool" where
  "all_resolved [] = True"
| "all_resolved (Call c x # t) = (x = Resolved \<and> all_resolved t)"
| "all_resolved (Log l # t) = all_resolved t"
| "all_resolved (Delay n # t) = all_resolved t"

text \<open>The pauses of a trace, in order.\<close>

fun delays :: "event list \<Rightarrow> nat list" where
  "delays [] = []"
| "delays (Delay n # t) = n # delays t"
| "delays (Call c x # t) = delays t"
| "delays (Log l # t) = delays t"

text \<open>The calls of a trace that resolved, in order.\<close>

fun resolved :: "event list \<Rightarrow> call list" where
  "resolved [] = []"
| "resolved (Call c x # t) = (if x = Resolved then c # resolved t else resolved t)"
| "resolved (Log l # t) = resolved t"
| "resolved (Delay n # t) = resolved t"

text \<open>
  The calls the descriptors of a collection ask for: one optional call per field
  descriptor (\<open>None\<close> for a kind the switch does not handle), one call per index descriptor.
\<close>

definition field_requests :: "string option \<Rightarrow> collection \<Rightarrow> call option list" where
  "field_requests db c =
     (case coll_id c of None \<Rightarrow> []
      | Some cid \<Rightarrow> map (createAttribute db cid) (coll_attributes c))"

definition index_requests :: "string option \<Rightarrow> collection \<Rightarrow> call list" where
  "index_requests db c =
     (case coll_id c of None \<Rightarrow> []
      | Some cid \<Rightarrow> map (createIndex db cid) (coll_indexes c))"

text \<open>The five kinds of the switch.\<close>

definition handled :: "attr \<Rightarrow> bool" where
  "handled a = (attr_type a \<in> set [''string'', ''integer'', ''double'', ''boolean'', ''datetime''])"

text \<open>\<^verbatim>\<open>!collection.id\<close> is false: the identifier is set and not empty.\<close>

definition configured :: "collection \<Rightarrow> bool" where
  "configured c = (case coll_id c of None \<Rightarrow> False | Some cid \<Rightarrow> cid \<noteq> [])"

text \<open>The trace of each iteration of the loop over the descriptors, one per descriptor.\<close>

fun collection_traces ::
  "'r remote \<Rightarrow> string option \<Rightarrow> collection list \<Rightarrow> 'r \<Rightarrow> event list list" where
  "collection_traces rem db [] r = []"
| "collection_traces rem db (c # cs) r =
     (case collection_body rem db c r of (t, r1) \<Rightarrow> t # collection_traces rem db cs r1)"

text \<open>All calls a collection descriptor asks for, in the order the script issues them.\<close>

definition requests :: "string option \<Rightarrow> collection \<Rightarrow> call list" where
  "requests db c =
     (case coll_id c of None \<Rightarrow> []
      | Some cid \<Rightarrow>
          GetCollection db cid # List.map_filter (createAttribute db cid) (coll_attributes c)
            @ map (createIndex db cid) (coll_indexes c))"

text \<open>
  In state \<open>r\<close> the service answers the call \<open>q\<close> with a rejection whose message
  includes \<^verbatim>\<open>already exists\<close>, and stays in \<open>r\<close>.
\<close>

definition conflict_at :: "'r remote \<Rightarrow> 'r \<Rightarrow> call \<Rightarrow> bool" where
  "conflict_at rem r q =
     (case rem r q of
        (Resolved, r') \<Rightarrow> False
      | (Rejected m, r') \<Rightarrow> r' = r \<and> js_includes m ''already exists'')"

text \<open>
  The schema of the descriptor \<open>c\<close> is already applied in state \<open>r\<close>: the lookup of the
  collection leaves the state as it is and, when it resolves, every create call the
  descriptor asks for is answered as a conflict.
\<close>

definition already_applied :: "'r remote \<Rightarrow> string option \<Rightarrow> 'r \<Rightarrow> collection \<Rightarrow> bool" where
  "already_applied rem db r c =
     (case coll_id c of None \<Rightarrow> True
      | Some cid \<Rightarrow>
          if cid = [] then True
          else snd (rem r (GetCollection db cid)) = r \<and>
            (case fst (rem r (GetCollection db cid)) of
               Rejected m \<Rightarrow> True
             | Resolved \<Rightarrow>
                 list_all (conflict_at rem r)
                   (List.map_filter (createAttribute db cid) (coll_attributes c)
                     @ map (createIndex db cid) (coll_indexes c))))"

text \<open>
  The reading of the pacing rule under which every attempt to create a field, whatever
  its outcome, is followed by the 100 ms pause before the next call.
\<close>

fun pause_follows :: "event list \<Rightarrow> bool" where
  "pause_follows [] = False"
| "pause_follows (Delay n # t) = (n = 100 \<or> pause_follows t)"
| "pause_follows (Call c x # t) = False"
| "pause_follows (Log l # t) = pause_follows t"

fun pause_after_each_attempt :: "event list \<Rightarrow> bool" where
  "pause_after_each_attempt [] = True"
| "pause_after_each_attempt (Call c x # t) =
     ((if is_field_call c then pause_follows t else True) \<and> pause_after_each_attempt t)"
| "pause_after_each_attempt (Log l # t) = pause_after_each_attempt t"
| "pause_after_each_attempt (Delay n # t) = pause_after_each_attempt t"

subsection \<open>A service to run the script against\<close>

text \<open>
  The remote service is not part of the repository; the statements below hold for any
  service. To run the script on concrete inputs, this one keeps the identifiers of the
  collections that exist and the keys created so far, rejects a lookup of an unknown
  collection with the message \<open>nf\<close>, and rejects the creation of a key that exists with
  the message \<open>cf\<close>.
\<close>

record store =
  present :: "string list"
  attribute_keys :: "(string \<times> string) list"
  index_keys :: "(string \<times> string) list"

definition add_attribute :: "string \<Rightarrow> store \<Rightarrow> string \<Rightarrow> string \<Rightarrow> response \<times> store" where
  "add_attribute cf s cid k =
     (if (cid, k) \<in> set (attribute_keys s) then (Rejected cf, s)
      else (Resolved, s\<lparr>attribute_keys := attribute_keys s @ [(cid, k)]\<rparr>))"

definition add_index :: "string \<Rightarrow> store \<Rightarrow> string \<Rightarrow> string \<Rightarrow> response \<times> store" where
  "add_index cf s cid k =
     (if (cid, k) \<in> set (index_keys s) then (Rejected cf, s)
      else (Resolved, s\<lparr>index_keys := index_keys s @ [(cid, k)]\<rparr>))"

fun store_remote :: "string \<Rightarrow> string \<Rightarrow> store remote" where
  "store_remote nf cf s (GetCollection db cid) =
     (if cid \<in> set (present s) then (Resolved, s) else (Rejected nf, s))"
| "store_remote nf cf s (CreateStringAttribute db cid k sz rq df ar) = add_attribute cf s cid k"
| "store_remote nf cf s (CreateIntegerAttribute db cid k rq mn mx df ar) = add_attribute cf s cid k"
| "store_remote nf cf s (CreateFloatAttribute db cid k rq mn mx df ar) = add_attribute cf s cid k"
| "store_remote nf cf s (CreateBooleanAttribute db cid k rq df ar) = add_attribute cf s cid k"
| "store_remote nf cf s (CreateDatetimeAttribute db cid k rq df ar) = add_attribute cf s cid k"
| "store_remote nf cf s (CreateIndex db cid k ty ks os) = add_index cf s cid k"

subsection \<open>Concrete inputs\<close>

definition sample_env :: env where
  "sample_env =
     \<lparr>APPWRITE_DATABASE_ID = Some ''main'', CREATORS_COLLECTION_ID = Some ''creators'',
      VIDEOS_COLLECTION_ID = Some ''videos'', COMMENTS_COLLECTION_ID = Some ''comments'',
      TAGS_COLLECTION_ID = Some ''tags''\<rparr>"

definition sample_names :: "nat \<Rightarrow> string" where
  "sample_names k = ''unique()''"

definition tags_collection :: "string option \<Rightarrow> collection" where
  "tags_collection i =
     \<lparr>coll_id = i, coll_name = ''unique()'',
      coll_attributes = tags_attributes, coll_indexes = tags_indexes\<rparr>"

text \<open>All four collections exist and hold no field and no index.\<close>

definition fresh_store :: store where
  "fresh_store =
     \<lparr>present = [''creators'', ''videos'', ''comments'', ''tags''],
      attribute_keys = [], index_keys = []\<rparr>"

text \<open>The collection of the tags exists and holds all its declared fields and its index.\<close>

definition tags_store :: store where
  "tags_store =
     \<lparr>present = [''tags''],
      attribute_keys = [(''tags'', ''name''), (''tags'', ''count'')],
      index_keys = [(''tags'', ''name_index'')]\<rparr>"

text \<open>The collection of the tags exists and holds the field \<^verbatim>\<open>name\<close> only.\<close>

definition name_only_store :: store where
  "name_only_store =
     \<lparr>present = [''tags''], attribute_keys = [(''tags'', ''name'')], index_keys = []\<rparr>"


text \<open>
  All four collections exist, and the creators collection holds the field
  \<^verbatim>\<open>user_id\<close> only.
\<close>

definition user_id_store :: store where
  "user_id_store =
     \<lparr>present = [''creators'', ''videos'', ''comments'', ''tags''],
      attribute_keys = [(''creators'', ''user_id'')], index_keys = []\<rparr>"

text \<open>A field descriptor of a kind the switch does not know.\<close>

definition json_attr :: attr where
  "json_attr =
     \<lparr>attr_key = ''meta'', attr_type = ''json'', attr_size = JUndefined, attr_required = False,
      attr_default = JUndefined, attr_array = JUndefined, attr_min = JUndefined,
      attr_max = JUndefined\<rparr>"

section \<open>Properties\<close>

subsection \<open>Loops and traces\<close>

lemma for_each_append:
  "for_each body (xs @ ys) r =
     (case for_each body xs r of (t1, r1) \<Rightarrow>
        (case for_each body ys r1 of (t2, r2) \<Rightarrow> (t1 @ t2, r2)))"
  by (induction xs arbitrary: r) (auto split: prod.splits)

lemma calls_append: "calls (s @ t) = calls s @ calls t"
  by (induction s rule: calls.induct) auto

lemma all_resolved_append: "all_resolved (s @ t) = (all_resolved s \<and> all_resolved t)"
  by (induction s rule: all_resolved.induct) auto

lemma delays_append: "delays (s @ t) = delays s @ delays t"
  by (induction s rule: delays.induct) auto

lemma calls_logs [simp]:
  "calls [log_collection c] = []" "calls [log_no_id c] = []" "calls [log_found c] = []"
  "calls [log_process c] = []" "calls [log_unknown_type a] = []" "calls [log_attr_ok a] = []"
  "calls [log_attr_skip a] = []" "calls [log_attr_error a m] = []" "calls [log_wait] = []"
  "calls [log_index c] = []" "calls [log_index_ok i] = []" "calls [log_index_skip i] = []"
  "calls [log_index_error i m] = []" "calls [log_not_found c] = []"
  "calls [log_collection_error c m] = []"
  by (simp_all add: log_collection_def log_no_id_def log_found_def log_process_def
      log_unknown_type_def log_attr_ok_def log_attr_skip_def log_attr_error_def log_wait_def
      log_index_def log_index_ok_def log_index_skip_def log_index_error_def log_not_found_def
      log_collection_error_def)

lemma attribute_body_calls:
  "calls (fst (attribute_body rem db cid a r)) =
     (case createAttribute db cid a of None \<Rightarrow> [] | Some c \<Rightarrow> [c])"
  by (auto simp: attribute_body_def log_unknown_type_def log_attr_ok_def log_attr_skip_def log_attr_error_def split: option.splits prod.splits response.splits)

lemma attribute_loop_calls:
  "calls (fst (for_each (attribute_body rem db cid) as r)) =
     List.map_filter (createAttribute db cid) as"
proof (induction as arbitrary: r)
  case Nil
  show ?case by simp
next
  case (Cons a as)
  obtain t1 r1 where b: "attribute_body rem db cid a r = (t1, r1)" by (cases "attribute_body rem db cid a r")
  obtain t2 r2 where l: "for_each (attribute_body rem db cid) as r1 = (t2, r2)" by (cases "for_each (attribute_body rem db cid) as r1")
  have "calls t1 = (case createAttribute db cid a of None \<Rightarrow> [] | Some c \<Rightarrow> [c])"
    using attribute_body_calls [of rem db cid a r] b by simp
  moreover have "calls t2 = List.map_filter (createAttribute db cid) as"
    using Cons.IH [of r1] l by simp
  ultimately show ?case using b l
    by (simp add: calls_append split: option.splits)
qed

lemma index_body_calls:
  "calls (fst (index_body rem db cid i r)) = [createIndex db cid i]"
  by (auto simp: index_body_def log_index_ok_def log_index_skip_def log_index_error_def split: prod.splits response.splits)

lemma index_loop_calls:
  "calls (fst (for_each (index_body rem db cid) is r)) = map (createIndex db cid) is"
proof (induction "is" arbitrary: r)
  case Nil
  show ?case by simp
next
  case (Cons i "is")
  obtain t1 r1 where b: "index_body rem db cid i r = (t1, r1)" by (cases "index_body rem db cid i r")
  obtain t2 r2 where l: "for_each (index_body rem db cid) is r1 = (t2, r2)" by (cases "for_each (index_body rem db cid) is r1")
  have "calls t1 = [createIndex db cid i]"
    using index_body_calls [of rem db cid i r] b by simp
  moreover have "calls t2 = map (createIndex db cid) is"
    using Cons.IH [of r1] l by simp
  ultimately show ?case using b l by (simp add: calls_append)
qed

lemma collection_body_calls:
  assumes "coll_id c = Some cid" "cid \<noteq> []" "fst (rem r (GetCollection db cid)) = Resolved"
  shows "calls (fst (collection_body rem db c r)) =
           GetCollection db cid # List.map_filter (createAttribute db cid) (coll_attributes c)
             @ map (createIndex db cid) (coll_indexes c)"
proof -
  obtain r1 where g: "rem r (GetCollection db cid) = (Resolved, r1)"
    using assms(3) by (cases "rem r (GetCollection db cid)") auto
  obtain ta r2 where a: "for_each (attribute_body rem db cid) (coll_attributes c) r1 = (ta, r2)"
    by (cases "for_each (attribute_body rem db cid) (coll_attributes c) r1")
  obtain ti r3 where i: "for_each (index_body rem db cid) (coll_indexes c) r2 = (ti, r3)"
    by (cases "for_each (index_body rem db cid) (coll_indexes c) r2")
  have ca: "calls ta = List.map_filter (createAttribute db cid) (coll_attributes c)"
    using attribute_loop_calls [of rem db cid "coll_attributes c" r1] a by simp
  have ci: "calls ti = map (createIndex db cid) (coll_indexes c)"
    using index_loop_calls [of rem db cid "coll_indexes c" r2] i by simp
  show ?thesis
    using assms(1,2) g a i ca ci
    by (simp add: collection_body_def calls_append log_collection_def log_found_def
        log_process_def log_wait_def log_index_def)
qed

lemma for_each_Cons:
  "for_each body (x # xs) r =
     (fst (body x r) @ fst (for_each body xs (snd (body x r))),
      snd (for_each body xs (snd (body x r))))"
  by (simp split: prod.splits)

declare for_each.simps(2) [simp del]

lemma starts_with_iff: "starts_with s t \<longleftrightarrow> (\<exists>ss. s = t @ ss)"
  by (induction s t rule: starts_with.induct) auto

lemma js_includes_iff: "js_includes s t \<longleftrightarrow> (\<exists>ps ss. s = ps @ t @ ss)"
proof (induction s)
  case Nil
  show ?case by auto
next
  case (Cons d s)
  show ?case
  proof
    assume "js_includes (d # s) t"
    then consider "starts_with (d # s) t" | "js_includes s t" by auto
    then show "\<exists>ps ss. d # s = ps @ t @ ss"
    proof cases
      case 1
      then obtain ss where "d # s = t @ ss" using starts_with_iff by blast
      then have "d # s = [] @ t @ ss" by simp
      then show ?thesis by blast
    next
      case 2
      then obtain ps ss where "s = ps @ t @ ss" using Cons.IH by blast
      then have "d # s = (d # ps) @ t @ ss" by simp
      then show ?thesis by blast
    qed
  next
    assume "\<exists>ps ss. d # s = ps @ t @ ss"
    then obtain ps ss where e: "d # s = ps @ t @ ss" by blast
    show "js_includes (d # s) t"
    proof (cases ps)
      case Nil
      then have "starts_with (d # s) t" using e starts_with_iff by auto
      then show ?thesis by simp
    next
      case (Cons p ps')
      then have "s = ps' @ t @ ss" using e by simp
      then have "js_includes s t" using Cons.IH by blast
      then show ?thesis by simp
    qed
  qed
qed

lemma js_includes_longer: "js_includes s (p @ t) \<Longrightarrow> js_includes s t"
proof -
  assume "js_includes s (p @ t)"
  then obtain ps ss where "s = ps @ (p @ t) @ ss" using js_includes_iff by blast
  then have "s = (ps @ p) @ t @ ss" by simp
  then show ?thesis using js_includes_iff by blast
qed

lemma attribute_conflict_test:
  "(js_includes m ''already exists'' \<or> js_includes m ''Attribute already exists'')
     = js_includes m ''already exists''"
  using js_includes_longer [of m "''Attribute ''" "''already exists''"] by auto

lemma index_conflict_test:
  "(js_includes m ''already exists'' \<or> js_includes m ''Index already exists'')
     = js_includes m ''already exists''"
  using js_includes_longer [of m "''Index ''" "''already exists''"] by auto

lemma createAttribute_None: "createAttribute db cid a = None \<longleftrightarrow> \<not> handled a"
  by (simp add: createAttribute_def handled_def)

subsection \<open>Field descriptors\<close>

text \<open>
  Claim C10. A field descriptor whose kind is none of \<^verbatim>\<open>string\<close>, \<^verbatim>\<open>integer\<close>,
  \<^verbatim>\<open>double\<close>, \<^verbatim>\<open>boolean\<close>, \<^verbatim>\<open>datetime\<close> gets no create call: the body logs
  the warning and nothing else, issues no call, inserts no pause, leaves the service as
  it is, and the loop goes on with the next descriptor of the same collection.
\<close>

theorem C10_unknown_kind:
  assumes "attr_type a \<notin> set [''string'', ''integer'', ''double'', ''boolean'', ''datetime'']"
  shows "createAttribute db cid a = None
       \<and> attribute_body rem db cid a r = ([log_unknown_type a], r)
       \<and> calls (fst (attribute_body rem db cid a r)) = []
       \<and> delays (fst (attribute_body rem db cid a r)) = []
       \<and> for_each (attribute_body rem db cid) (a # as) r =
            (log_unknown_type a # fst (for_each (attribute_body rem db cid) as r),
             snd (for_each (attribute_body rem db cid) as r))"
proof -
  have n: "createAttribute db cid a = None"
    using assms by (simp add: createAttribute_def)
  have b: "attribute_body rem db cid a r = ([log_unknown_type a], r)"
    using n by (simp add: attribute_body_def)
  have d: "delays [log_unknown_type a] = []"
    by (simp add: log_unknown_type_def)
  show ?thesis
    using n b d by (simp add: for_each_Cons)
qed

theorem C10_unknown_kind_witness:
  "attr_type json_attr \<notin> set [''string'', ''integer'', ''double'', ''boolean'', ''datetime'']
   \<and> attribute_body (store_remote ''not found'' ''already exists'') (Some ''main'') ''tags''
        json_attr fresh_store = ([log_unknown_type json_attr], fresh_store)
   \<and> for_each (attribute_body (store_remote ''not found'' ''already exists'')
        (Some ''main'') ''tags'') (json_attr # tags_attributes) fresh_store
      = (log_unknown_type json_attr
           # fst (for_each (attribute_body (store_remote ''not found'' ''already exists'')
               (Some ''main'') ''tags'') tags_attributes fresh_store),
         snd (for_each (attribute_body (store_remote ''not found'' ''already exists'')
               (Some ''main'') ''tags'') tags_attributes fresh_store))"
proof -
  have h: "attr_type json_attr \<notin> set [''string'', ''integer'', ''double'', ''boolean'', ''datetime'']"
    by (simp add: json_attr_def)
  note t = C10_unknown_kind [OF h, of "Some ''main''" "''tags''"
      "store_remote ''not found'' ''already exists''" fresh_store tags_attributes]
  from h t show ?thesis by blast
qed

subsection \<open>Collections\<close>

lemma log_arity:
  "log_not_found c \<noteq> log_collection_error c' m"
  "log_attr_skip a \<noteq> log_attr_error a' m"
  "log_index_skip i \<noteq> log_index_error i' m"
  by (simp_all add: log_not_found_def log_collection_error_def log_attr_skip_def
      log_attr_error_def log_index_skip_def log_index_error_def)

lemma apply_collections_Cons:
  "apply_collections rem db (c # cs) r =
     (fst (collection_body rem db c r)
        @ fst (apply_collections rem db cs (snd (collection_body rem db c r))),
      snd (apply_collections rem db cs (snd (collection_body rem db c r))))"
  by (simp add: apply_collections_def for_each_Cons)

lemma apply_collections_append:
  "apply_collections rem db (xs @ ys) r =
     (fst (apply_collections rem db xs r)
        @ fst (apply_collections rem db ys (snd (apply_collections rem db xs r))),
      snd (apply_collections rem db ys (snd (apply_collections rem db xs r))))"
  by (simp add: apply_collections_def for_each_append split: prod.splits)

text \<open>
  Claim C7. For a collection whose identifier is unset or empty the body logs the header
  and the configuration error, issues no call and leaves the service as it is. The
  collections before and after it are processed as they are without it: the trace of the
  run is the trace without the descriptor with the two lines inserted, and the final
  state of the service is the same.
\<close>

theorem C7_unconfigured:
  assumes "coll_id c = None \<or> coll_id c = Some []"
  shows "collection_body rem db c r = ([log_collection c, log_no_id c], r)
       \<and> calls (fst (collection_body rem db c r)) = []
       \<and> fst (apply_collections rem db (pre @ c # post) r) =
            fst (apply_collections rem db pre r) @ [log_collection c, log_no_id c]
              @ fst (apply_collections rem db post (snd (apply_collections rem db pre r)))
       \<and> fst (apply_collections rem db (pre @ post) r) =
            fst (apply_collections rem db pre r)
              @ fst (apply_collections rem db post (snd (apply_collections rem db pre r)))
       \<and> snd (apply_collections rem db (pre @ c # post) r) =
            snd (apply_collections rem db (pre @ post) r)"
proof -
  have b: "collection_body rem db c r' = ([log_collection c, log_no_id c], r')" for r'
    using assms by (auto simp: collection_body_def)
  have q: "calls [log_collection c, log_no_id c] = []"
    by (simp add: log_collection_def log_no_id_def)
  have s: "apply_collections rem db (c # post) r' =
             ([log_collection c, log_no_id c] @ fst (apply_collections rem db post r'),
              snd (apply_collections rem db post r'))" for r'
    by (simp add: apply_collections_Cons b)
  show ?thesis
    by (simp add: b q s apply_collections_append)
qed

theorem C7_unconfigured_witness:
  "(coll_id (tags_collection None) = None \<or> coll_id (tags_collection None) = Some [])
   \<and> collection_body (store_remote ''not found'' ''already exists'') (Some ''main'')
        (tags_collection None) fresh_store
      = ([log_collection (tags_collection None), log_no_id (tags_collection None)], fresh_store)
   \<and> snd (apply_collections (store_remote ''not found'' ''already exists'') (Some ''main'')
        ([tags_collection (Some ''tags'')] @ tags_collection None # [tags_collection (Some ''tags'')])
        fresh_store)
      = snd (apply_collections (store_remote ''not found'' ''already exists'') (Some ''main'')
        ([tags_collection (Some ''tags'')] @ [tags_collection (Some ''tags'')]) fresh_store)"
proof -
  have h: "coll_id (tags_collection None) = None \<or> coll_id (tags_collection None) = Some []"
    by (simp add: tags_collection_def)
  note t = C7_unconfigured [OF h, of "store_remote ''not found'' ''already exists''"
      "Some ''main''" fresh_store "[tags_collection (Some ''tags'')]"
      "[tags_collection (Some ''tags'')]"]
  from h t show ?thesis by blast
qed

subsection \<open>Arguments of the create calls\<close>

text \<open>
  Claim C5 says that a field declared with default 0 or default false has that default
  passed in its create call. The descriptors \<^verbatim>\<open>subscribers\<close> (default 0) and
  \<^verbatim>\<open>is_verified\<close> (default false) of the creators collection are created with
  \<^verbatim>\<open>null\<close> in the place of the default: \<^verbatim>\<open>attr.default || null\<close> replaces every
  falsy default.
\<close>

theorem C5_falsy_default_dropped:
  "attr_default (creators_attributes ! 6) = JNum 0
   \<and> createAttribute db cid (creators_attributes ! 6) =
       Some (CreateIntegerAttribute db cid ''subscribers'' True JNull JNull JNull (JBool False))
   \<and> attr_default (creators_attributes ! 8) = JBool False
   \<and> createAttribute db cid (creators_attributes ! 8) =
       Some (CreateBooleanAttribute db cid ''is_verified'' True JNull (JBool False))"
  by (simp add: creators_attributes_def createAttribute_def js_or_def)

text \<open>
  Claim C6 says that a descriptor declared unique is requested as a unique key index.
  The descriptor \<^verbatim>\<open>handle_index\<close> declares \<^verbatim>\<open>unique: true\<close> and is requested with
  the kind \<^verbatim>\<open>key\<close>: the create call passes \<^verbatim>\<open>index.type\<close> and never reads the
  \<^verbatim>\<open>unique\<close> flag, so the call is the same whatever the flag is.
\<close>

theorem C6_unique_flag_ignored:
  "index_unique (creators_indexes ! 1) = JBool True
   \<and> createIndex db cid (creators_indexes ! 1) =
       CreateIndex db cid ''handle_index'' ''key'' [''handle''] []
   \<and> createIndex db cid (i\<lparr>index_unique := u\<rparr>) = createIndex db cid i"
  by (simp add: creators_indexes_def createIndex_def)

subsection \<open>Pacing\<close>

lemma attribute_body_delays:
  "delays (fst (attribute_body rem db cid a r)) =
     (case createAttribute db cid a of
        None \<Rightarrow> []
      | Some q \<Rightarrow> if fst (rem r q) = Resolved then [100] else [])"
  by (auto simp: attribute_body_def log_unknown_type_def log_attr_ok_def log_attr_skip_def
      log_attr_error_def split: option.splits prod.splits response.splits)

lemma index_body_delays:
  "delays (fst (index_body rem db cid i r)) =
     (if fst (rem r (createIndex db cid i)) = Resolved then [200] else [])"
  by (auto simp: index_body_def log_index_ok_def log_index_skip_def log_index_error_def
      split: prod.splits response.splits)

subsection \<open>Order of the calls\<close>

lemma calls_log_Cons [simp]:
  "calls (log_collection c # t) = calls t" "calls (log_no_id c # t) = calls t"
  "calls (log_found c # t) = calls t" "calls (log_process c # t) = calls t"
  "calls (log_unknown_type a # t) = calls t" "calls (log_attr_ok a # t) = calls t"
  "calls (log_attr_skip a # t) = calls t" "calls (log_attr_error a m # t) = calls t"
  "calls (log_wait # t) = calls t" "calls (log_index c # t) = calls t"
  "calls (log_index_ok i # t) = calls t" "calls (log_index_skip i # t) = calls t"
  "calls (log_index_error i m # t) = calls t" "calls (log_not_found c # t) = calls t"
  "calls (log_collection_error c m # t) = calls t"
  by (simp_all add: log_collection_def log_no_id_def log_found_def log_process_def
      log_unknown_type_def log_attr_ok_def log_attr_skip_def log_attr_error_def log_wait_def
      log_index_def log_index_ok_def log_index_skip_def log_index_error_def log_not_found_def
      log_collection_error_def)

lemma delays_log_Cons [simp]:
  "delays (log_collection c # t) = delays t" "delays (log_no_id c # t) = delays t"
  "delays (log_found c # t) = delays t" "delays (log_process c # t) = delays t"
  "delays (log_unknown_type a # t) = delays t" "delays (log_attr_ok a # t) = delays t"
  "delays (log_attr_skip a # t) = delays t" "delays (log_attr_error a m # t) = delays t"
  "delays (log_wait # t) = delays t" "delays (log_index c # t) = delays t"
  "delays (log_index_ok i # t) = delays t" "delays (log_index_skip i # t) = delays t"
  "delays (log_index_error i m # t) = delays t" "delays (log_not_found c # t) = delays t"
  "delays (log_collection_error c m # t) = delays t"
  by (simp_all add: log_collection_def log_no_id_def log_found_def log_process_def
      log_unknown_type_def log_attr_ok_def log_attr_skip_def log_attr_error_def log_wait_def
      log_index_def log_index_ok_def log_index_skip_def log_index_error_def log_not_found_def
      log_collection_error_def)

lemma all_resolved_log_Cons [simp]:
  "all_resolved (log_collection c # t) = all_resolved t"
  "all_resolved (log_no_id c # t) = all_resolved t"
  "all_resolved (log_found c # t) = all_resolved t"
  "all_resolved (log_process c # t) = all_resolved t"
  "all_resolved (log_unknown_type a # t) = all_resolved t"
  "all_resolved (log_attr_ok a # t) = all_resolved t"
  "all_resolved (log_attr_skip a # t) = all_resolved t"
  "all_resolved (log_attr_error a m # t) = all_resolved t"
  "all_resolved (log_wait # t) = all_resolved t"
  "all_resolved (log_index c # t) = all_resolved t"
  "all_resolved (log_index_ok i # t) = all_resolved t"
  "all_resolved (log_index_skip i # t) = all_resolved t"
  "all_resolved (log_index_error i m # t) = all_resolved t"
  "all_resolved (log_not_found c # t) = all_resolved t"
  "all_resolved (log_collection_error c m # t) = all_resolved t"
  by (simp_all add: log_collection_def log_no_id_def log_found_def log_process_def
      log_unknown_type_def log_attr_ok_def log_attr_skip_def log_attr_error_def log_wait_def
      log_index_def log_index_ok_def log_index_skip_def log_index_error_def log_not_found_def
      log_collection_error_def)

lemma createAttribute_is_field:
  "createAttribute db cid a = Some q \<Longrightarrow> is_field_call q \<and> \<not> is_index_call q"
  by (auto simp: createAttribute_def split: if_splits)

lemma field_requests_are_fields:
  "q \<in> set (List.map_filter (createAttribute db cid) as) \<Longrightarrow> is_field_call q \<and> \<not> is_index_call q"
  by (auto simp: List.map_filter_def dest: createAttribute_is_field)

lemma index_requests_are_indexes:
  "q \<in> set (map (createIndex db cid) is) \<Longrightarrow> is_index_call q \<and> \<not> is_field_call q"
  by (auto simp: createIndex_def)

lemma two_blocks_order:
  assumes f: "\<forall>q\<in>set xs. \<not> is_index_call q" and x: "\<forall>q\<in>set ys. \<not> is_field_call q"
    and i: "i < length (xs @ ys)" "is_index_call ((xs @ ys) ! i)"
    and j: "j < length (xs @ ys)" "is_field_call ((xs @ ys) ! j)"
  shows "j < i"
proof -
  have "\<not> i < length xs"
  proof
    assume l: "i < length xs"
    then have "(xs @ ys) ! i \<in> set xs" by (simp add: nth_append)
    then show False using f i(2) by blast
  qed
  moreover have "j < length xs"
  proof (rule ccontr)
    assume l: "\<not> j < length xs"
    then have "(xs @ ys) ! j = ys ! (j - length xs)" by (simp add: nth_append)
    moreover have "j - length xs < length ys" using l j(1) by simp
    ultimately have "(xs @ ys) ! j \<in> set ys" by simp
    then show False using x j(2) by blast
  qed
  ultimately show ?thesis by simp
qed

lemma collection_body_calls_shape:
  "calls (fst (collection_body rem db c r)) = []
   \<or> (\<exists>cid. coll_id c = Some cid
         \<and> (calls (fst (collection_body rem db c r)) = [GetCollection db cid]
            \<or> calls (fst (collection_body rem db c r)) =
                 GetCollection db cid # List.map_filter (createAttribute db cid) (coll_attributes c)
                   @ map (createIndex db cid) (coll_indexes c)))"
proof (cases "coll_id c")
  case None
  then show ?thesis by (simp add: collection_body_def)
next
  case (Some cid)
  show ?thesis
  proof (cases "cid = []")
    case True
    then show ?thesis using Some by (simp add: collection_body_def)
  next
    case False
    show ?thesis
    proof (cases "fst (rem r (GetCollection db cid))")
      case Resolved
      then show ?thesis using collection_body_calls [OF Some False, of rem r db] Some by simp
    next
      case (Rejected m)
      then obtain r1 where "rem r (GetCollection db cid) = (Rejected m, r1)"
        by (cases "rem r (GetCollection db cid)") auto
      then have "calls (fst (collection_body rem db c r)) = [GetCollection db cid]"
        using Some False by (simp add: collection_body_def)
      then show ?thesis using Some by simp
    qed
  qed
qed

lemma collection_body_order:
  assumes "i < length (calls (fst (collection_body rem db c r)))"
    and "is_index_call (calls (fst (collection_body rem db c r)) ! i)"
    and "j < length (calls (fst (collection_body rem db c r)))"
    and "is_field_call (calls (fst (collection_body rem db c r)) ! j)"
  shows "j < i"
proof -
  consider "calls (fst (collection_body rem db c r)) = []"
    | cid where "calls (fst (collection_body rem db c r)) = [GetCollection db cid]"
    | cid where "calls (fst (collection_body rem db c r)) =
        (GetCollection db cid # List.map_filter (createAttribute db cid) (coll_attributes c))
          @ map (createIndex db cid) (coll_indexes c)"
    using collection_body_calls_shape [of rem db c r] by auto
  then show ?thesis
  proof cases
    case 1
    then show ?thesis using assms(1) by simp
  next
    case 2
    then show ?thesis using assms(3,4) by simp
  next
    case 3
    have f: "\<forall>q\<in>set (GetCollection db cid
               # List.map_filter (createAttribute db cid) (coll_attributes c)). \<not> is_index_call q"
      using field_requests_are_fields [of _ db cid "coll_attributes c"] by auto
    have x: "\<forall>q\<in>set (map (createIndex db cid) (coll_indexes c)). \<not> is_field_call q"
      using index_requests_are_indexes [of _ db cid "coll_indexes c"] by blast
    show ?thesis
      using two_blocks_order [OF f x] assms unfolding 3 by blast
  qed
qed

lemma collection_traces_concat:
  "fst (apply_collections rem db cs r) = concat (collection_traces rem db cs r)"
  by (induction cs arbitrary: r)
    (simp_all add: apply_collections_def for_each_Cons split: prod.splits)

lemma collection_traces_length: "length (collection_traces rem db cs r) = length cs"
  by (induction cs arbitrary: r) (simp_all split: prod.splits)

lemma collection_traces_nth:
  "k < length cs \<Longrightarrow> \<exists>r'. collection_traces rem db cs r ! k = fst (collection_body rem db (cs ! k) r')"
proof (induction cs arbitrary: r k)
  case Nil
  then show ?case by simp
next
  case (Cons c cs)
  show ?case
  proof (cases k)
    case 0
    have "collection_traces rem db (c # cs) r ! 0 = fst (collection_body rem db c r)"
      by (simp split: prod.splits)
    then show ?thesis using 0 by auto
  next
    case (Suc n)
    then have "n < length cs" using Cons.prems by simp
    then obtain r' where "collection_traces rem db cs (snd (collection_body rem db c r)) ! n
        = fst (collection_body rem db (cs ! n) r')"
      using Cons.IH by blast
    then show ?thesis using Suc by (auto split: prod.splits)
  qed
qed

text \<open>
  Claim C3. The trace of the run is the sequence of the traces of the collection
  descriptors, one per descriptor and in their order, each the body of the loop on that
  descriptor; within the trace of a descriptor no create-index call comes before a
  create-field call.
\<close>

theorem C3_fields_before_indexes:
  "fst (apply_collections rem db cs r) = concat (collection_traces rem db cs r)
   \<and> length (collection_traces rem db cs r) = length cs
   \<and> (\<forall>k<length cs.
        (\<exists>r'. collection_traces rem db cs r ! k = fst (collection_body rem db (cs ! k) r'))
        \<and> (\<forall>i j. i < length (calls (collection_traces rem db cs r ! k))
               \<and> j < length (calls (collection_traces rem db cs r ! k))
               \<and> is_index_call (calls (collection_traces rem db cs r ! k) ! i)
               \<and> is_field_call (calls (collection_traces rem db cs r ! k) ! j)
             \<longrightarrow> j < i))"
proof -
  have o: "j < i"
    if "k < length cs"
      and "i < length (calls (collection_traces rem db cs r ! k))"
      and "j < length (calls (collection_traces rem db cs r ! k))"
      and "is_index_call (calls (collection_traces rem db cs r ! k) ! i)"
      and "is_field_call (calls (collection_traces rem db cs r ! k) ! j)"
    for k i j
  proof -
    note h = that
    obtain r' where e: "collection_traces rem db cs r ! k = fst (collection_body rem db (cs ! k) r')"
      using collection_traces_nth [OF h(1), of rem db r] by blast
    show ?thesis
      using collection_body_order [of i rem db "cs ! k" r' j] h(2-5) unfolding e by blast
  qed
  show ?thesis
    using collection_traces_concat [of rem db cs r] collection_traces_length [of rem db cs r]
      collection_traces_nth [of _ cs rem db r] o
    by blast
qed

theorem C3_fields_before_indexes_witness:
  "(0::nat) < length [tags_collection (Some ''tags'')]
   \<and> calls (collection_traces (store_remote ''not found'' ''already exists'') (Some ''main'')
        [tags_collection (Some ''tags'')] name_only_store ! 0)
      = [GetCollection (Some ''main'') ''tags'',
         CreateStringAttribute (Some ''main'') ''tags'' ''name'' (JNum 50) True JNull (JBool False),
         CreateIntegerAttribute (Some ''main'') ''tags'' ''count'' True JNull JNull JNull (JBool False),
         CreateIndex (Some ''main'') ''tags'' ''name_index'' ''key'' [''name''] []]
   \<and> is_index_call (calls (collection_traces (store_remote ''not found'' ''already exists'')
        (Some ''main'') [tags_collection (Some ''tags'')] name_only_store ! 0) ! 3)
   \<and> is_field_call (calls (collection_traces (store_remote ''not found'' ''already exists'')
        (Some ''main'') [tags_collection (Some ''tags'')] name_only_store ! 0) ! 2)
   \<and> (2::nat) < 3"
proof -
  let ?seg = "collection_traces (store_remote ''not found'' ''already exists'') (Some ''main'')
        [tags_collection (Some ''tags'')] name_only_store ! 0"
  have b: "?seg = fst (collection_body (store_remote ''not found'' ''already exists'')
        (Some ''main'') (tags_collection (Some ''tags'')) name_only_store)"
    by (simp split: prod.splits)
  have e: "calls ?seg
      = [GetCollection (Some ''main'') ''tags'',
         CreateStringAttribute (Some ''main'') ''tags'' ''name'' (JNum 50) True JNull (JBool False),
         CreateIntegerAttribute (Some ''main'') ''tags'' ''count'' True JNull JNull JNull (JBool False),
         CreateIndex (Some ''main'') ''tags'' ''name_index'' ''key'' [''name''] []]"
    unfolding b
    by (subst collection_body_calls [where cid = "''tags''"])
      (simp_all add: tags_collection_def name_only_store_def
        createAttribute_def createIndex_def tags_attributes_def tags_indexes_def js_or_def)
  have h0: "(0::nat) < length [tags_collection (Some ''tags'')]" by simp
  have h1: "(3::nat) < length (calls ?seg)" unfolding e by simp
  have h2: "(2::nat) < length (calls ?seg)" unfolding e by simp
  have h3: "is_index_call (calls ?seg ! 3)" unfolding e by simp
  have h4: "is_field_call (calls ?seg ! 2)" unfolding e by simp
  note t = C3_fields_before_indexes [of "store_remote ''not found'' ''already exists''"
      "Some ''main''" "[tags_collection (Some ''tags'')]" name_only_store]
  from t h0 h1 h2 h3 h4 have "(2::nat) < 3" by blast
  with h0 e h3 h4 show ?thesis by blast
qed

subsection \<open>A run in which every call resolves\<close>

lemma collection_body_lookup_resolved:
  assumes "coll_id c = Some cid" and "cid \<noteq> []"
    and "all_resolved (fst (collection_body rem db c r))"
  shows "fst (rem r (GetCollection db cid)) = Resolved"
proof (cases "rem r (GetCollection db cid)")
  case (Pair x r1)
  show ?thesis
  proof (cases x)
    case Resolved
    then show ?thesis using Pair by simp
  next
    case (Rejected m)
    then have "\<not> all_resolved (fst (collection_body rem db c r))"
      using assms(1,2) Pair by (simp add: collection_body_def)
    then show ?thesis using assms(3) by blast
  qed
qed

lemma requests_configured:
  "coll_id c = Some cid \<Longrightarrow> requests db c =
     GetCollection db cid # List.map_filter (createAttribute db cid) (coll_attributes c)
       @ map (createIndex db cid) (coll_indexes c)"
  by (simp add: requests_def)

lemma apply_collections_calls:
  assumes "list_all configured cs"
    and "all_resolved (fst (apply_collections rem db cs r))"
  shows "calls (fst (apply_collections rem db cs r)) = concat (map (requests db) cs)"
  using assms
proof (induction cs arbitrary: r)
  case Nil
  show ?case by (simp add: apply_collections_def)
next
  case (Cons c cs)
  obtain cid where i: "coll_id c = Some cid" "cid \<noteq> []"
    using Cons.prems(1) by (auto simp: configured_def split: option.splits)
  have a: "all_resolved (fst (collection_body rem db c r))"
    and b: "all_resolved (fst (apply_collections rem db cs (snd (collection_body rem db c r))))"
    using Cons.prems(2) by (simp_all add: apply_collections_Cons all_resolved_append)
  have "calls (fst (collection_body rem db c r)) = requests db c"
    using collection_body_calls [where rem = rem and r = r, OF i collection_body_lookup_resolved [OF i a]]
      requests_configured [OF i(1)] by simp
  moreover have "calls (fst (apply_collections rem db cs (snd (collection_body rem db c r))))
      = concat (map (requests db) cs)"
    using Cons.IH [OF _ b] Cons.prems(1) by simp
  ultimately show ?case
    by (simp add: apply_collections_Cons calls_append)
qed

lemma map_Some_map_filter:
  "\<forall>x\<in>set xs. f x \<noteq> None \<Longrightarrow> map Some (List.map_filter f xs) = map f xs"
  by (induction xs) (auto split: option.splits)

lemma filter_field_map_filter:
  "filter is_field_call (List.map_filter (createAttribute db cid) as) =
     List.map_filter (createAttribute db cid) as"
  using field_requests_are_fields [of _ db cid as] by (simp add: filter_id_conv)

lemma filter_index_map_filter:
  "filter is_index_call (List.map_filter (createAttribute db cid) as) = []"
  using field_requests_are_fields [of _ db cid as] by (simp add: filter_empty_conv)

lemma filter_field_indexes: "filter is_field_call (map (createIndex db cid) is) = []"
  by (simp add: filter_empty_conv createIndex_def)

lemma filter_index_indexes:
  "filter is_index_call (map (createIndex db cid) is) = map (createIndex db cid) is"
  by (simp add: filter_id_conv createIndex_def)

lemma field_calls_of_requests:
  assumes "list_all handled (coll_attributes c)"
  shows "map Some (filter is_field_call (requests db c)) = field_requests db c"
proof (cases "coll_id c")
  case None
  then show ?thesis by (simp add: requests_def field_requests_def)
next
  case (Some cid)
  have "\<forall>a\<in>set (coll_attributes c). createAttribute db cid a \<noteq> None"
    using assms by (simp add: list_all_iff createAttribute_None)
  then show ?thesis
    using Some
    by (simp add: requests_def field_requests_def filter_field_map_filter filter_field_indexes
        map_Some_map_filter)
qed

lemma index_calls_of_requests: "filter is_index_call (requests db c) = index_requests db c"
  by (cases "coll_id c")
    (simp_all add: requests_def index_requests_def filter_index_map_filter filter_index_indexes)

lemma run_field_calls:
  assumes "list_all configured cs" and "list_all (\<lambda>c. list_all handled (coll_attributes c)) cs"
    and "all_resolved (fst (apply_collections rem db cs r))"
  shows "map Some (field_calls (fst (apply_collections rem db cs r))) =
           concat (map (field_requests db) cs)"
proof -
  have "map Some (filter is_field_call (concat (map (requests db) cs))) =
          concat (map (field_requests db) cs)"
    using assms(2)
    by (induction cs) (simp_all add: field_calls_of_requests)
  then show ?thesis
    using apply_collections_calls [OF assms(1,3)] by (simp add: field_calls_def)
qed

lemma run_index_calls:
  assumes "list_all configured cs"
    and "all_resolved (fst (apply_collections rem db cs r))"
  shows "index_calls (fst (apply_collections rem db cs r)) = concat (map (index_requests db) cs)"
proof -
  have "filter is_index_call (concat (map (requests db) cs)) = concat (map (index_requests db) cs)"
    by (induction cs) (simp_all add: index_calls_of_requests)
  then show ?thesis
    using apply_collections_calls [OF assms] by (simp add: index_calls_def)
qed

lemma declared_handled:
  "list_all (\<lambda>c. list_all handled (coll_attributes c)) (collections e names)"
  by (simp add: collections_def handled_def creators_attributes_def videos_attributes_def
      comments_attributes_def tags_attributes_def)

lemma declared_counts:
  "length (concat (map coll_attributes (collections e names))) = 30"
  "length (concat (map coll_indexes (collections e names))) = 7"
  by (simp_all add: collections_def creators_attributes_def videos_attributes_def
      comments_attributes_def tags_attributes_def creators_indexes_def videos_indexes_def
      comments_indexes_def tags_indexes_def)

lemma requests_lengths:
  assumes "list_all configured cs"
  shows "length (concat (map (field_requests db) cs)) = length (concat (map coll_attributes cs))"
    and "length (concat (map (index_requests db) cs)) = length (concat (map coll_indexes cs))"
  using assms
  by (induction cs)
    (auto simp: configured_def field_requests_def index_requests_def split: option.splits)

lemma main_entry_trace:
  "fst (main_entry e names rem r) =
     log_start # fst (apply_collections rem (APPWRITE_DATABASE_ID e) (collections e names) r)
       @ log_summary @ [Log [''Setup completed successfully'']]"
  by (simp add: main_entry_def setupDatabase_def split: prod.splits)

lemma main_entry_calls:
  "calls (fst (main_entry e names rem r)) =
     calls (fst (apply_collections rem (APPWRITE_DATABASE_ID e) (collections e names) r))"
  by (simp add: main_entry_trace calls_append log_start_def log_summary_def)

lemma main_entry_all_resolved:
  "all_resolved (fst (main_entry e names rem r)) =
     all_resolved (fst (apply_collections rem (APPWRITE_DATABASE_ID e) (collections e names) r))"
  by (simp add: main_entry_trace all_resolved_append log_start_def log_summary_def)

text \<open>
  Claim C1. When every collection identifier is configured and every call of the run
  resolves, the run over the declared descriptors issues one create-field call for each of
  the 30 declared field descriptors and one create-index call for each of the 7 declared
  index descriptors, each call the one built from its descriptor and in the order of the
  declaration, and the process exits with code 0.
\<close>

theorem C1_all_succeed:
  assumes "list_all configured (collections e names)"
    and "all_resolved (fst (main_entry e names rem r))"
  shows "map Some (field_calls (fst (main_entry e names rem r))) =
           concat (map (field_requests (APPWRITE_DATABASE_ID e)) (collections e names))
       \<and> length (field_calls (fst (main_entry e names rem r))) = 30
       \<and> length (concat (map coll_attributes (collections e names))) = 30
       \<and> index_calls (fst (main_entry e names rem r)) =
           concat (map (index_requests (APPWRITE_DATABASE_ID e)) (collections e names))
       \<and> length (index_calls (fst (main_entry e names rem r))) = 7
       \<and> length (concat (map coll_indexes (collections e names))) = 7
       \<and> fst (snd (main_entry e names rem r)) = 0"
proof -
  let ?db = "APPWRITE_DATABASE_ID e"
  let ?cs = "collections e names"
  have a: "all_resolved (fst (apply_collections rem ?db ?cs r))"
    using assms(2) by (simp add: main_entry_all_resolved)
  have f: "map Some (field_calls (fst (main_entry e names rem r))) =
             concat (map (field_requests ?db) ?cs)"
    using run_field_calls [OF assms(1) declared_handled a]
    by (simp add: field_calls_def main_entry_calls)
  have i: "index_calls (fst (main_entry e names rem r)) = concat (map (index_requests ?db) ?cs)"
    using run_index_calls [OF assms(1) a] by (simp add: index_calls_def main_entry_calls)
  have "length (map Some (field_calls (fst (main_entry e names rem r)))) = 30"
    unfolding f using requests_lengths(1) [OF assms(1)] declared_counts(1) by simp
  then have fl: "length (field_calls (fst (main_entry e names rem r))) = 30"
    by simp
  have il: "length (index_calls (fst (main_entry e names rem r))) = 7"
    unfolding i using requests_lengths(2) [OF assms(1)] declared_counts(2) by simp
  have x: "fst (snd (main_entry e names rem r)) = 0"
    by (simp add: main_entry_def split: prod.splits)
  show ?thesis
    using f fl i il x declared_counts [of e names] by blast
qed

theorem C1_all_succeed_witness:
  "list_all configured (collections sample_env sample_names)
   \<and> all_resolved (fst (main_entry sample_env sample_names
         (store_remote ''not found'' ''already exists'') fresh_store))
   \<and> length (field_calls (fst (main_entry sample_env sample_names
         (store_remote ''not found'' ''already exists'') fresh_store))) = 30
   \<and> length (index_calls (fst (main_entry sample_env sample_names
         (store_remote ''not found'' ''already exists'') fresh_store))) = 7
   \<and> fst (snd (main_entry sample_env sample_names
         (store_remote ''not found'' ''already exists'') fresh_store)) = 0"
proof -
  have h1: "list_all configured (collections sample_env sample_names)"
    by (simp add: collections_def configured_def sample_env_def)
  have h2: "all_resolved (fst (main_entry sample_env sample_names
         (store_remote ''not found'' ''already exists'') fresh_store))"
    by code_simp
  note t = C1_all_succeed [OF h1 h2]
  from h1 h2 t show ?thesis by blast
qed

subsection \<open>Conflicts and reruns\<close>

lemma attr_error_distinct:
  "log_attr_error a m \<noteq> log_collection c" "log_attr_error a m \<noteq> log_no_id c"
  "log_attr_error a m \<noteq> log_found c" "log_attr_error a m \<noteq> log_process c"
  "log_attr_error a m \<noteq> log_unknown_type a'" "log_attr_error a m \<noteq> log_attr_ok a'"
  "log_attr_error a m \<noteq> log_attr_skip a'" "log_attr_error a m \<noteq> log_wait"
  "log_attr_error a m \<noteq> log_index c" "log_attr_error a m \<noteq> log_index_ok i"
  "log_attr_error a m \<noteq> log_index_skip i" "log_attr_error a m \<noteq> log_index_error i m'"
  "log_attr_error a m \<noteq> log_not_found c" "log_attr_error a m \<noteq> log_collection_error c m'"
  "log_attr_error a m \<noteq> Call q x" "log_attr_error a m \<noteq> Delay n"
  by (simp_all add: log_collection_def log_no_id_def log_found_def log_process_def
      log_unknown_type_def log_attr_ok_def log_attr_skip_def log_attr_error_def log_wait_def
      log_index_def log_index_ok_def log_index_skip_def log_index_error_def log_not_found_def
      log_collection_error_def)

lemma index_error_distinct:
  "log_index_error i m \<noteq> log_collection c" "log_index_error i m \<noteq> log_no_id c"
  "log_index_error i m \<noteq> log_found c" "log_index_error i m \<noteq> log_process c"
  "log_index_error i m \<noteq> log_unknown_type a" "log_index_error i m \<noteq> log_attr_ok a"
  "log_index_error i m \<noteq> log_attr_skip a" "log_index_error i m \<noteq> log_wait"
  "log_index_error i m \<noteq> log_index c" "log_index_error i m \<noteq> log_index_ok i'"
  "log_index_error i m \<noteq> log_index_skip i'" "log_index_error i m \<noteq> log_attr_error a m'"
  "log_index_error i m \<noteq> log_not_found c" "log_index_error i m \<noteq> log_collection_error c m'"
  "log_index_error i m \<noteq> Call q x" "log_index_error i m \<noteq> Delay n"
  by (simp_all add: log_collection_def log_no_id_def log_found_def log_process_def
      log_unknown_type_def log_attr_ok_def log_attr_skip_def log_attr_error_def log_wait_def
      log_index_def log_index_ok_def log_index_skip_def log_index_error_def log_not_found_def
      log_collection_error_def)

lemma conflict_atD:
  "conflict_at rem u q \<Longrightarrow> \<exists>m. rem u q = (Rejected m, u) \<and> js_includes m ''already exists''"
  by (auto simp: conflict_at_def split: prod.splits response.splits)

lemma attribute_body_conflict:
  assumes "createAttribute db cid a = Some q" and "rem r q = (Rejected m, r')"
    and "js_includes m ''already exists''"
  shows "attribute_body rem db cid a r = ([Call q (Rejected m), log_attr_skip a], r')"
  using assms by (simp add: attribute_body_def)

lemma index_body_conflict:
  assumes "rem r (createIndex db cid i) = (Rejected m, r')"
    and "js_includes m ''already exists''"
  shows "index_body rem db cid i r =
           ([Call (createIndex db cid i) (Rejected m), log_index_skip i], r')"
  using assms by (simp add: index_body_def)

lemma attribute_loop_applied:
  assumes "list_all (conflict_at rem u) (List.map_filter (createAttribute db cid) as)"
  shows "snd (for_each (attribute_body rem db cid) as u) = u
       \<and> delays (fst (for_each (attribute_body rem db cid) as u)) = []
       \<and> (\<forall>a m. log_attr_error a m \<notin> set (fst (for_each (attribute_body rem db cid) as u)))
       \<and> (\<forall>i m. log_index_error i m \<notin> set (fst (for_each (attribute_body rem db cid) as u)))"
  using assms
proof (induction as)
  case Nil
  show ?case by simp
next
  case (Cons a as)
  show ?case
  proof (cases "createAttribute db cid a")
    case None
    then have b: "attribute_body rem db cid a u = ([log_unknown_type a], u)"
      by (simp add: attribute_body_def)
    have "list_all (conflict_at rem u) (List.map_filter (createAttribute db cid) as)"
      using Cons.prems None by simp
    then show ?thesis
      using Cons.IH b attr_error_distinct(5) index_error_distinct(5)
      by (simp add: for_each_Cons)
  next
    case (Some q)
    then have c: "conflict_at rem u q"
      and l: "list_all (conflict_at rem u) (List.map_filter (createAttribute db cid) as)"
      using Cons.prems by simp_all
    obtain m where m: "rem u q = (Rejected m, u)" "js_includes m ''already exists''"
      using conflict_atD [OF c] by blast
    have b: "attribute_body rem db cid a u = ([Call q (Rejected m), log_attr_skip a], u)"
      using attribute_body_conflict [where rem = rem and r = u, OF Some m] .
    show ?thesis
      using Cons.IH [OF l] b attr_error_distinct(7,15) index_error_distinct(7,15)
      by (simp add: for_each_Cons)
  qed
qed

lemma index_loop_applied:
  assumes "list_all (conflict_at rem u) (map (createIndex db cid) is)"
  shows "snd (for_each (index_body rem db cid) is u) = u
       \<and> delays (fst (for_each (index_body rem db cid) is u)) = []
       \<and> (\<forall>a m. log_attr_error a m \<notin> set (fst (for_each (index_body rem db cid) is u)))
       \<and> (\<forall>i m. log_index_error i m \<notin> set (fst (for_each (index_body rem db cid) is u)))"
  using assms
proof (induction "is")
  case Nil
  show ?case by simp
next
  case (Cons i "is")
  have c: "conflict_at rem u (createIndex db cid i)"
    and l: "list_all (conflict_at rem u) (map (createIndex db cid) is)"
    using Cons.prems by simp_all
  obtain m where m: "rem u (createIndex db cid i) = (Rejected m, u)"
      "js_includes m ''already exists''"
    using conflict_atD [OF c] by blast
  have b: "index_body rem db cid i u =
      ([Call (createIndex db cid i) (Rejected m), log_index_skip i], u)"
    using index_body_conflict [where rem = rem and r = u, OF m] .
  show ?case
    using Cons.IH [OF l] b attr_error_distinct(11,15) index_error_distinct(11,15)
    by (simp add: for_each_Cons)
qed

lemma collection_body_applied:
  assumes "already_applied rem db u c"
  shows "snd (collection_body rem db c u) = u
       \<and> set (delays (fst (collection_body rem db c u))) \<subseteq> {3000}
       \<and> (\<forall>a m. log_attr_error a m \<notin> set (fst (collection_body rem db c u)))
       \<and> (\<forall>i m. log_index_error i m \<notin> set (fst (collection_body rem db c u)))"
proof (cases "coll_id c")
  case None
  then show ?thesis
    using attr_error_distinct(1,2) index_error_distinct(1,2)
    by (simp add: collection_body_def)
next
  case (Some cid)
  show ?thesis
  proof (cases "cid = []")
    case True
    then show ?thesis
      using Some attr_error_distinct(1,2) index_error_distinct(1,2)
      by (simp add: collection_body_def)
  next
    case False
    have k: "snd (rem u (GetCollection db cid)) = u"
      using assms Some False by (simp add: already_applied_def)
    show ?thesis
    proof (cases "fst (rem u (GetCollection db cid))")
      case (Rejected m)
      then have g: "rem u (GetCollection db cid) = (Rejected m, u)"
        using k by (cases "rem u (GetCollection db cid)") simp
      show ?thesis
        using Some False g attr_error_distinct(1,13,14,15) index_error_distinct(1,13,14,15)
        by (simp add: collection_body_def)
    next
      case Resolved
      then have g: "rem u (GetCollection db cid) = (Resolved, u)"
        using k by (cases "rem u (GetCollection db cid)") simp
      have l: "list_all (conflict_at rem u)
                 (List.map_filter (createAttribute db cid) (coll_attributes c))"
        and li: "list_all (conflict_at rem u) (map (createIndex db cid) (coll_indexes c))"
        using assms Some False Resolved by (simp_all add: already_applied_def)
      note A = attribute_loop_applied [OF l]
      note I = index_loop_applied [OF li]
      obtain ta where ta: "for_each (attribute_body rem db cid) (coll_attributes c) u = (ta, u)"
        using A by (cases "for_each (attribute_body rem db cid) (coll_attributes c) u") simp
      obtain ti where ti: "for_each (index_body rem db cid) (coll_indexes c) u = (ti, u)"
        using I by (cases "for_each (index_body rem db cid) (coll_indexes c) u") simp
      show ?thesis
        using Some False g ta ti A I
          attr_error_distinct(1,3,4,8,9,15,16) index_error_distinct(1,3,4,8,9,15,16)
        by (simp add: collection_body_def delays_append)
    qed
  qed
qed

lemma run_applied:
  assumes "list_all (already_applied rem db u) cs"
  shows "snd (apply_collections rem db cs u) = u
       \<and> set (delays (fst (apply_collections rem db cs u))) \<subseteq> {3000}
       \<and> (\<forall>a m. log_attr_error a m \<notin> set (fst (apply_collections rem db cs u)))
       \<and> (\<forall>i m. log_index_error i m \<notin> set (fst (apply_collections rem db cs u)))"
  using assms
proof (induction cs)
  case Nil
  show ?case by (simp add: apply_collections_def)
next
  case (Cons c cs)
  have a: "already_applied rem db u c" and l: "list_all (already_applied rem db u) cs"
    using Cons.prems by simp_all
  show ?case
    using collection_body_applied [OF a] Cons.IH [OF l]
    by (simp add: apply_collections_Cons delays_append)
qed

text \<open>
  Claim C2. A create call for a field or for an index that is rejected with a message
  that includes \<^verbatim>\<open>already exists\<close> is logged with the skip line, which is never the
  line of a failure, and the loop goes on with the next descriptor. Consequently a run
  over a schema that is already applied (every create call of the run is answered as such
  a conflict and leaves the service as it is, lookups leave it as it is) changes nothing
  in the service, contains no pause other than the 3000 ms ones and logs no failure of a
  create call.
\<close>

theorem C2_conflict_is_skip:
  "(createAttribute db cid a = Some q \<and> rem r q = (Rejected m, r')
      \<and> js_includes m ''already exists'' \<longrightarrow>
      for_each (attribute_body rem db cid) (a # as) r =
        (Call q (Rejected m) # log_attr_skip a
           # fst (for_each (attribute_body rem db cid) as r'),
         snd (for_each (attribute_body rem db cid) as r')))
   \<and> (rem s (createIndex db cid i) = (Rejected n, s') \<and> js_includes n ''already exists'' \<longrightarrow>
      for_each (index_body rem db cid) (i # js) s =
        (Call (createIndex db cid i) (Rejected n) # log_index_skip i
           # fst (for_each (index_body rem db cid) js s'),
         snd (for_each (index_body rem db cid) js s')))
   \<and> log_attr_skip a \<noteq> log_attr_error a' m' \<and> log_index_skip i \<noteq> log_index_error i' m'
   \<and> (list_all (already_applied rem db u) cs \<longrightarrow>
        snd (apply_collections rem db cs u) = u
      \<and> set (delays (fst (apply_collections rem db cs u))) \<subseteq> {3000}
      \<and> (\<forall>a m. log_attr_error a m \<notin> set (fst (apply_collections rem db cs u)))
      \<and> (\<forall>i m. log_index_error i m \<notin> set (fst (apply_collections rem db cs u))))"
proof -
  have f: "createAttribute db cid a = Some q \<and> rem r q = (Rejected m, r')
      \<and> js_includes m ''already exists'' \<longrightarrow>
      for_each (attribute_body rem db cid) (a # as) r =
        (Call q (Rejected m) # log_attr_skip a
           # fst (for_each (attribute_body rem db cid) as r'),
         snd (for_each (attribute_body rem db cid) as r'))"
    by (simp add: for_each_Cons attribute_body_def)
  have x: "rem s (createIndex db cid i) = (Rejected n, s') \<and> js_includes n ''already exists'' \<longrightarrow>
      for_each (index_body rem db cid) (i # js) s =
        (Call (createIndex db cid i) (Rejected n) # log_index_skip i
           # fst (for_each (index_body rem db cid) js s'),
         snd (for_each (index_body rem db cid) js s'))"
    by (simp add: for_each_Cons index_body_def)
  show ?thesis
    using f x log_arity(2) [of a a' m'] log_arity(3) [of i i' m'] run_applied [of rem db u cs]
    by blast
qed

theorem C2_conflict_is_skip_witness:
  "createAttribute (Some ''main'') ''tags'' (tags_attributes ! 0) = Some (CreateStringAttribute (Some ''main'') ''tags'' ''name'' (JNum 50) True JNull (JBool False))
   \<and> (store_remote ''not found'' ''The requested key already exists.'') name_only_store (CreateStringAttribute (Some ''main'') ''tags'' ''name'' (JNum 50) True JNull (JBool False)) = (Rejected ''The requested key already exists.'', name_only_store)
   \<and> js_includes ''The requested key already exists.'' ''already exists''
   \<and> for_each (attribute_body (store_remote ''not found'' ''The requested key already exists.'') (Some ''main'') ''tags'')
        (tags_attributes ! 0 # [tags_attributes ! 1]) name_only_store =
        (Call (CreateStringAttribute (Some ''main'') ''tags'' ''name'' (JNum 50) True JNull (JBool False)) (Rejected ''The requested key already exists.'')
           # log_attr_skip (tags_attributes ! 0)
           # fst (for_each (attribute_body (store_remote ''not found'' ''The requested key already exists.'') (Some ''main'') ''tags'') [tags_attributes ! 1]
                  name_only_store),
         snd (for_each (attribute_body (store_remote ''not found'' ''The requested key already exists.'') (Some ''main'') ''tags'') [tags_attributes ! 1]
                name_only_store))
   \<and> (store_remote ''not found'' ''The requested key already exists.'') tags_store (createIndex (Some ''main'') ''tags'' (tags_indexes ! 0)) =
        (Rejected ''The requested key already exists.'', tags_store)
   \<and> for_each (index_body (store_remote ''not found'' ''The requested key already exists.'') (Some ''main'') ''tags'') (tags_indexes ! 0 # []) tags_store =
        (Call (createIndex (Some ''main'') ''tags'' (tags_indexes ! 0))
              (Rejected ''The requested key already exists.'')
           # log_index_skip (tags_indexes ! 0)
           # fst (for_each (index_body (store_remote ''not found'' ''The requested key already exists.'') (Some ''main'') ''tags'') [] tags_store),
         snd (for_each (index_body (store_remote ''not found'' ''The requested key already exists.'') (Some ''main'') ''tags'') [] tags_store))
   \<and> list_all (already_applied (store_remote ''not found'' ''The requested key already exists.'') (Some ''main'')
          (snd (apply_collections (store_remote ''not found'' ''The requested key already exists.'') (Some ''main'') (collections sample_env sample_names)
                  fresh_store)))
        (collections sample_env sample_names)
   \<and> snd (apply_collections (store_remote ''not found'' ''The requested key already exists.'') (Some ''main'') (collections sample_env sample_names)
          (snd (apply_collections (store_remote ''not found'' ''The requested key already exists.'') (Some ''main'') (collections sample_env sample_names)
                  fresh_store)))
      = snd (apply_collections (store_remote ''not found'' ''The requested key already exists.'') (Some ''main'') (collections sample_env sample_names)
               fresh_store)"
proof -
  have h1: "createAttribute (Some ''main'') ''tags'' (tags_attributes ! 0) = Some (CreateStringAttribute (Some ''main'') ''tags'' ''name'' (JNum 50) True JNull (JBool False))"
    by (simp add: createAttribute_def tags_attributes_def js_or_def)
  have h2: "store_remote ''not found'' ''The requested key already exists.'' name_only_store (CreateStringAttribute (Some ''main'') ''tags'' ''name'' (JNum 50) True JNull (JBool False)) =
      (Rejected ''The requested key already exists.'', name_only_store)"
    by (simp add: add_attribute_def name_only_store_def)
  have h3: "js_includes ''The requested key already exists.'' ''already exists''"
    by simp
  have h4: "store_remote ''not found'' ''The requested key already exists.'' tags_store (createIndex (Some ''main'') ''tags'' (tags_indexes ! 0)) =
        (Rejected ''The requested key already exists.'', tags_store)"
    by (simp add: createIndex_def tags_indexes_def add_index_def tags_store_def)
  have h5: "list_all (already_applied (store_remote ''not found'' ''The requested key already exists.'') (Some ''main'')
          (snd (apply_collections (store_remote ''not found'' ''The requested key already exists.'') (Some ''main'') (collections sample_env sample_names)
                  fresh_store)))
        (collections sample_env sample_names)"
    by code_simp
  note t = C2_conflict_is_skip [where rem = "store_remote ''not found'' ''The requested key already exists.''" and db = "Some ''main''" and cid = "''tags''"
      and a = "tags_attributes ! 0" and q = "CreateStringAttribute (Some ''main'') ''tags'' ''name'' (JNum 50) True JNull (JBool False)" and r = name_only_store and r' = name_only_store
      and m = "''The requested key already exists.''" and as = "[tags_attributes ! 1]"
      and s = tags_store and s' = tags_store and i = "tags_indexes ! 0" and js = "[]"
      and n = "''The requested key already exists.''"
      and cs = "collections sample_env sample_names"
      and u = "snd (apply_collections (store_remote ''not found'' ''The requested key already exists.'') (Some ''main'') (collections sample_env sample_names)
                 fresh_store)"]
  from t h1 h2 h3 h4 h5 show ?thesis by blast
qed

subsection \<open>A failure inside a run\<close>

lemma collection_body_resolved:
  assumes "coll_id c = Some cid" and "cid \<noteq> []"
    and "rem r (GetCollection db cid) = (Resolved, r1)"
  shows "collection_body rem db c r =
    ([log_collection c, Call (GetCollection db cid) Resolved, log_found c, log_process c]
       @ fst (for_each (attribute_body rem db cid) (coll_attributes c) r1)
       @ [log_wait, Delay 3000]
       @ (if coll_indexes c = [] then []
          else log_index c # fst (for_each (index_body rem db cid) (coll_indexes c)
                 (snd (for_each (attribute_body rem db cid) (coll_attributes c) r1)))),
     snd (for_each (index_body rem db cid) (coll_indexes c)
            (snd (for_each (attribute_body rem db cid) (coll_attributes c) r1))))"
  using assms by (simp add: collection_body_def split: prod.splits)

lemma for_each_split:
  "for_each body (xs @ x # ys) r =
     (fst (for_each body xs r) @ fst (body x (snd (for_each body xs r)))
        @ fst (for_each body ys (snd (body x (snd (for_each body xs r))))),
      snd (for_each body ys (snd (body x (snd (for_each body xs r))))))"
  by (simp add: for_each_append for_each_Cons split: prod.splits)

lemma main_entry_unfold:
  "main_entry e names rem r =
     (log_start # fst (apply_collections rem (APPWRITE_DATABASE_ID e) (collections e names) r)
        @ log_summary @ [Log [''Setup completed successfully'']],
      0,
      snd (apply_collections rem (APPWRITE_DATABASE_ID e) (collections e names) r))"
  by (simp add: main_entry_def setupDatabase_def split: prod.splits)

lemma run_through_failure:
  assumes b: "attribute_body rem db cid a r = (tb, r')"
    and cs: "cs = pre @ c # post"
    and i: "coll_id c = Some cid" "cid \<noteq> []"
    and g: "rem (snd (apply_collections rem db pre r0)) (GetCollection db cid) = (Resolved, r2)"
    and as: "coll_attributes c = as1 @ a # as2"
    and r: "snd (for_each (attribute_body rem db cid) as1 r2) = r"
  shows "apply_collections rem db cs r0 =
    (fst (apply_collections rem db pre r0)
       @ [log_collection c, Call (GetCollection db cid) Resolved, log_found c, log_process c]
       @ fst (for_each (attribute_body rem db cid) as1 r2)
       @ tb
       @ fst (for_each (attribute_body rem db cid) as2 r')
       @ [log_wait, Delay 3000]
       @ (if coll_indexes c = [] then []
          else log_index c # fst (for_each (index_body rem db cid) (coll_indexes c)
                 (snd (for_each (attribute_body rem db cid) as2 r'))))
       @ fst (apply_collections rem db post
           (snd (for_each (index_body rem db cid) (coll_indexes c)
                  (snd (for_each (attribute_body rem db cid) as2 r'))))),
     snd (apply_collections rem db post
           (snd (for_each (index_body rem db cid) (coll_indexes c)
                  (snd (for_each (attribute_body rem db cid) as2 r'))))))"
proof -
  have l: "for_each (attribute_body rem db cid) (coll_attributes c) r2 =
      (fst (for_each (attribute_body rem db cid) as1 r2) @ tb
         @ fst (for_each (attribute_body rem db cid) as2 r'),
       snd (for_each (attribute_body rem db cid) as2 r'))"
    unfolding as using b r by (simp add: for_each_split)
  note k = collection_body_resolved [where rem = rem
      and r = "snd (apply_collections rem db pre r0)", OF i g]
  show ?thesis
    unfolding cs
    by (simp add: apply_collections_append apply_collections_Cons k l)
qed

text \<open>
  Claim C8. When the create call of a field descriptor is rejected with a message that
  does not include \<^verbatim>\<open>already exists\<close>, the body logs the error with that message, and
  the loop goes on with the descriptors that follow: every one of them with a handled
  kind gets its call. However the create calls are answered, a collection whose lookup
  resolved gets the calls of all its field descriptors and then of all its index
  descriptors. When the failing call is issued in a run of the script, the run consists
  of everything before the call, the call and its error line, the rest of the field loop,
  the pause and the index loop of the collection, the collections that follow, and the
  closing lines; the process exits with code 0.
\<close>

theorem C8_other_failure_continues:
  assumes "createAttribute db cid a = Some q"
    and "rem r q = (Rejected m, r')"
    and "\<not> js_includes m ''already exists''"
  shows "attribute_body rem db cid a r = ([Call q (Rejected m), log_attr_error a m], r')
       \<and> for_each (attribute_body rem db cid) (a # as) r =
            (Call q (Rejected m) # log_attr_error a m
               # fst (for_each (attribute_body rem db cid) as r'),
             snd (for_each (attribute_body rem db cid) as r'))
       \<and> calls (fst (for_each (attribute_body rem db cid) (a # as) r)) =
            q # List.map_filter (createAttribute db cid) as
       \<and> (coll_id c = Some cid \<and> cid \<noteq> [] \<and> fst (rem r0 (GetCollection db cid)) = Resolved \<longrightarrow>
            calls (fst (collection_body rem db c r0)) =
              GetCollection db cid # List.map_filter (createAttribute db cid) (coll_attributes c)
                @ map (createIndex db cid) (coll_indexes c))
       \<and> (APPWRITE_DATABASE_ID e = db \<and> collections e names = pre @ d # post
            \<and> coll_id d = Some cid \<and> cid \<noteq> []
            \<and> rem (snd (apply_collections rem db pre u)) (GetCollection db cid) = (Resolved, u')
            \<and> coll_attributes d = as1 @ a # as2
            \<and> snd (for_each (attribute_body rem db cid) as1 u') = r \<longrightarrow>
            main_entry e names rem u =
              (log_start # fst (apply_collections rem db pre u)
                 @ [log_collection d, Call (GetCollection db cid) Resolved, log_found d,
                    log_process d]
                 @ fst (for_each (attribute_body rem db cid) as1 u')
                 @ [Call q (Rejected m), log_attr_error a m]
                 @ fst (for_each (attribute_body rem db cid) as2 r')
                 @ [log_wait, Delay 3000]
                 @ (if coll_indexes d = [] then []
                    else log_index d # fst (for_each (index_body rem db cid) (coll_indexes d)
                           (snd (for_each (attribute_body rem db cid) as2 r'))))
                 @ fst (apply_collections rem db post
                     (snd (for_each (index_body rem db cid) (coll_indexes d)
                            (snd (for_each (attribute_body rem db cid) as2 r')))))
                 @ log_summary @ [Log [''Setup completed successfully'']],
               0,
               snd (apply_collections rem db post
                     (snd (for_each (index_body rem db cid) (coll_indexes d)
                            (snd (for_each (attribute_body rem db cid) as2 r')))))))"
proof -
  have s: "\<not> js_includes m ''Attribute already exists''"
    using assms(3) attribute_conflict_test [of m] by blast
  have b: "attribute_body rem db cid a r = ([Call q (Rejected m), log_attr_error a m], r')"
    using assms s by (simp add: attribute_body_def)
  have c: "calls (fst (for_each (attribute_body rem db cid) (a # as) r)) =
            q # List.map_filter (createAttribute db cid) as"
    using assms(1) by (simp only: attribute_loop_calls) simp
  have d: "coll_id c = Some cid \<and> cid \<noteq> [] \<and> fst (rem r0 (GetCollection db cid)) = Resolved \<longrightarrow>
            calls (fst (collection_body rem db c r0)) =
              GetCollection db cid # List.map_filter (createAttribute db cid) (coll_attributes c)
                @ map (createIndex db cid) (coll_indexes c)"
    using collection_body_calls [of c cid rem r0 db] by blast
  have l: "for_each (attribute_body rem db cid) (a # as) r =
            (Call q (Rejected m) # log_attr_error a m
               # fst (for_each (attribute_body rem db cid) as r'),
             snd (for_each (attribute_body rem db cid) as r'))"
    using b by (simp add: for_each_Cons)
  have w: "main_entry e names rem u =
              (log_start # fst (apply_collections rem db pre u)
                 @ [log_collection d, Call (GetCollection db cid) Resolved, log_found d,
                    log_process d]
                 @ fst (for_each (attribute_body rem db cid) as1 u')
                 @ [Call q (Rejected m), log_attr_error a m]
                 @ fst (for_each (attribute_body rem db cid) as2 r')
                 @ [log_wait, Delay 3000]
                 @ (if coll_indexes d = [] then []
                    else log_index d # fst (for_each (index_body rem db cid) (coll_indexes d)
                           (snd (for_each (attribute_body rem db cid) as2 r'))))
                 @ fst (apply_collections rem db post
                     (snd (for_each (index_body rem db cid) (coll_indexes d)
                            (snd (for_each (attribute_body rem db cid) as2 r')))))
                 @ log_summary @ [Log [''Setup completed successfully'']],
               0,
               snd (apply_collections rem db post
                     (snd (for_each (index_body rem db cid) (coll_indexes d)
                            (snd (for_each (attribute_body rem db cid) as2 r'))))))"
    if h: "APPWRITE_DATABASE_ID e = db" "collections e names = pre @ d # post"
      "coll_id d = Some cid" "cid \<noteq> []"
      "rem (snd (apply_collections rem db pre u)) (GetCollection db cid) = (Resolved, u')"
      "coll_attributes d = as1 @ a # as2"
      "snd (for_each (attribute_body rem db cid) as1 u') = r"
  proof -
    note k = run_through_failure [where rem = rem and ?r0.0 = u, OF b h(2) h(3) h(4) h(5) h(6) h(7)]
    show ?thesis
      unfolding main_entry_unfold h(1) k by simp
  qed
  show ?thesis
    using b c d l w by blast
qed

theorem C8_other_failure_continues_witness:
  "createAttribute (Some ''main'') ''creators'' (creators_attributes ! 0) = Some (CreateStringAttribute (Some ''main'') ''creators'' ''user_id'' (JNum 255) True JNull (JBool False))
   \<and> (store_remote ''not found'' ''Server Error'') user_id_store (CreateStringAttribute (Some ''main'') ''creators'' ''user_id'' (JNum 255) True JNull (JBool False)) = (Rejected ''Server Error'', user_id_store)
   \<and> \<not> js_includes ''Server Error'' ''already exists''
   \<and> coll_id (collections sample_env sample_names ! 0) = Some ''creators'' \<and> ''creators'' \<noteq> []
   \<and> fst ((store_remote ''not found'' ''Server Error'') user_id_store (GetCollection (Some ''main'') ''creators'')) = Resolved
   \<and> APPWRITE_DATABASE_ID sample_env = Some ''main''
   \<and> collections sample_env sample_names
        = [] @ (collections sample_env sample_names ! 0) # tl (collections sample_env sample_names)
   \<and> (store_remote ''not found'' ''Server Error'') (snd (apply_collections (store_remote ''not found'' ''Server Error'') (Some ''main'') [] user_id_store))
        (GetCollection (Some ''main'') ''creators'') = (Resolved, user_id_store)
   \<and> coll_attributes (collections sample_env sample_names ! 0) = [] @ creators_attributes ! 0 # tl creators_attributes
   \<and> snd (for_each (attribute_body (store_remote ''not found'' ''Server Error'') (Some ''main'') ''creators'') [] user_id_store) = user_id_store
   \<and> calls (fst (for_each (attribute_body (store_remote ''not found'' ''Server Error'') (Some ''main'') ''creators'') (creators_attributes ! 0 # tl creators_attributes)
        user_id_store))
      = (CreateStringAttribute (Some ''main'') ''creators'' ''user_id'' (JNum 255) True JNull (JBool False)) # List.map_filter (createAttribute (Some ''main'') ''creators'')
                (tl creators_attributes)
   \<and> calls (fst (collection_body (store_remote ''not found'' ''Server Error'') (Some ''main'') (collections sample_env sample_names ! 0) user_id_store))
      = GetCollection (Some ''main'') ''creators''
        # List.map_filter (createAttribute (Some ''main'') ''creators'') (coll_attributes (collections sample_env sample_names ! 0))
        @ map (createIndex (Some ''main'') ''creators'') (coll_indexes (collections sample_env sample_names ! 0))
   \<and> fst (snd (main_entry sample_env sample_names (store_remote ''not found'' ''Server Error'') user_id_store)) = 0
   \<and> log_attr_error (creators_attributes ! 0) ''Server Error''
        \<in> set (fst (main_entry sample_env sample_names (store_remote ''not found'' ''Server Error'') user_id_store))"
proof -
  have h1: "createAttribute (Some ''main'') ''creators'' (creators_attributes ! 0) = Some (CreateStringAttribute (Some ''main'') ''creators'' ''user_id'' (JNum 255) True JNull (JBool False))"
    by (simp add: createAttribute_def creators_attributes_def js_or_def)
  have h2: "(store_remote ''not found'' ''Server Error'') user_id_store (CreateStringAttribute (Some ''main'') ''creators'' ''user_id'' (JNum 255) True JNull (JBool False)) = (Rejected ''Server Error'', user_id_store)"
    by (simp add: add_attribute_def user_id_store_def)
  have h3: "\<not> js_includes ''Server Error'' ''already exists''"
    by simp
  have h4: "coll_id (collections sample_env sample_names ! 0) = Some ''creators''"
    by (simp add: collections_def sample_env_def)
  have h5: "''creators'' \<noteq> []" by simp
  have h6: "fst ((store_remote ''not found'' ''Server Error'') user_id_store (GetCollection (Some ''main'') ''creators'')) = Resolved"
    by (simp add: user_id_store_def)
  have h7: "APPWRITE_DATABASE_ID sample_env = Some ''main''"
    by (simp add: sample_env_def)
  have h8: "collections sample_env sample_names
        = [] @ (collections sample_env sample_names ! 0) # tl (collections sample_env sample_names)"
    by (simp add: collections_def)
  have h9: "(store_remote ''not found'' ''Server Error'') (snd (apply_collections (store_remote ''not found'' ''Server Error'') (Some ''main'') [] user_id_store))
        (GetCollection (Some ''main'') ''creators'') = (Resolved, user_id_store)"
    by (simp add: apply_collections_def user_id_store_def)
  have h10: "coll_attributes (collections sample_env sample_names ! 0) = [] @ creators_attributes ! 0 # tl creators_attributes"
    by (simp add: collections_def creators_attributes_def)
  have h11: "snd (for_each (attribute_body (store_remote ''not found'' ''Server Error'') (Some ''main'') ''creators'') [] user_id_store) = user_id_store"
    by simp
  note t = C8_other_failure_continues [where rem = "store_remote ''not found'' ''Server Error''" and r = user_id_store
      and as = "tl creators_attributes" and c = "collections sample_env sample_names ! 0" and ?r0.0 = user_id_store
      and e = sample_env and names = sample_names and pre = "[]" and d = "collections sample_env sample_names ! 0"
      and post = "tl (collections sample_env sample_names)" and u = user_id_store
      and u' = user_id_store and ?as1.0 = "[]" and ?as2.0 = "tl creators_attributes",
      OF h1 h2 h3]
  from t have c3: "calls (fst (for_each (attribute_body (store_remote ''not found'' ''Server Error'') (Some ''main'') ''creators'') (creators_attributes ! 0 # tl creators_attributes)
        user_id_store))
      = (CreateStringAttribute (Some ''main'') ''creators'' ''user_id'' (JNum 255) True JNull (JBool False)) # List.map_filter (createAttribute (Some ''main'') ''creators'')
                (tl creators_attributes)"
    by blast
  from t h4 h5 h6 have c4: "calls (fst (collection_body (store_remote ''not found'' ''Server Error'') (Some ''main'') (collections sample_env sample_names ! 0) user_id_store))
      = GetCollection (Some ''main'') ''creators''
        # List.map_filter (createAttribute (Some ''main'') ''creators'') (coll_attributes (collections sample_env sample_names ! 0))
        @ map (createIndex (Some ''main'') ''creators'') (coll_indexes (collections sample_env sample_names ! 0))"
    by blast
  from t h4 h5 h7 h8 h9 h10 h11
  have c5: "main_entry sample_env sample_names (store_remote ''not found'' ''Server Error'') user_id_store =
      (log_start # fst (apply_collections (store_remote ''not found'' ''Server Error'') (Some ''main'') [] user_id_store)
         @ [log_collection (collections sample_env sample_names ! 0), Call (GetCollection (Some ''main'') ''creators'') Resolved,
            log_found (collections sample_env sample_names ! 0), log_process (collections sample_env sample_names ! 0)]
         @ fst (for_each (attribute_body (store_remote ''not found'' ''Server Error'') (Some ''main'') ''creators'') [] user_id_store)
         @ [Call (CreateStringAttribute (Some ''main'') ''creators'' ''user_id'' (JNum 255) True JNull (JBool False)) (Rejected ''Server Error''),
            log_attr_error (creators_attributes ! 0) ''Server Error'']
         @ fst (for_each (attribute_body (store_remote ''not found'' ''Server Error'') (Some ''main'') ''creators'') (tl creators_attributes) user_id_store)
         @ [log_wait, Delay 3000]
         @ (if coll_indexes (collections sample_env sample_names ! 0) = [] then []
            else log_index (collections sample_env sample_names ! 0)
              # fst (for_each (index_body (store_remote ''not found'' ''Server Error'') (Some ''main'') ''creators'') (coll_indexes (collections sample_env sample_names ! 0))
                   (snd (for_each (attribute_body (store_remote ''not found'' ''Server Error'') (Some ''main'') ''creators'') (tl creators_attributes) user_id_store))))
         @ fst (apply_collections (store_remote ''not found'' ''Server Error'') (Some ''main'') (tl (collections sample_env sample_names))
             (snd (for_each (index_body (store_remote ''not found'' ''Server Error'') (Some ''main'') ''creators'') (coll_indexes (collections sample_env sample_names ! 0))
                    (snd (for_each (attribute_body (store_remote ''not found'' ''Server Error'') (Some ''main'') ''creators'') (tl creators_attributes) user_id_store)))))
         @ log_summary @ [Log [''Setup completed successfully'']],
       0,
       snd (apply_collections (store_remote ''not found'' ''Server Error'') (Some ''main'') (tl (collections sample_env sample_names))
             (snd (for_each (index_body (store_remote ''not found'' ''Server Error'') (Some ''main'') ''creators'') (coll_indexes (collections sample_env sample_names ! 0))
                    (snd (for_each (attribute_body (store_remote ''not found'' ''Server Error'') (Some ''main'') ''creators'') (tl creators_attributes) user_id_store))))))"
    by blast
  have x: "fst (snd (main_entry sample_env sample_names (store_remote ''not found'' ''Server Error'') user_id_store)) = 0"
    unfolding c5 by simp
  have y: "log_attr_error (creators_attributes ! 0) ''Server Error''
        \<in> set (fst (main_entry sample_env sample_names (store_remote ''not found'' ''Server Error'') user_id_store))"
    unfolding c5 by simp
  from h1 h2 h3 h4 h5 h6 h7 h8 h9 h10 h11 c3 c4 x y show ?thesis by blast
qed

subsection \<open>Where the pauses are\<close>

text \<open>
  Claim C9 says that every attempt to create a field, also one that fails or is skipped
  as already existing, is followed by the short pause before the next attempt. Against a
  service that already holds both fields of the tags collection, both attempts are
  rejected and no pause separates them.
\<close>

theorem C9_counterexample:
  "\<not> pause_after_each_attempt
       (fst (for_each (attribute_body (store_remote ''not found'' ''already exists'')
          (Some ''main'') ''tags'') tags_attributes tags_store))"
  by (simp add: for_each_Cons attribute_body_def createAttribute_def tags_attributes_def
      js_or_def add_attribute_def tags_store_def log_attr_skip_def)

lemma resolved_append: "resolved (s @ t) = resolved s @ resolved t"
  by (induction s rule: resolved.induct) auto

lemma attribute_body_pauses:
  "delays (fst (attribute_body rem db cid a r)) =
     replicate (length (resolved (fst (attribute_body rem db cid a r)))) 100"
  by (auto simp: attribute_body_def log_unknown_type_def log_attr_ok_def log_attr_skip_def
      log_attr_error_def split: option.splits prod.splits response.splits)

lemma index_body_pauses:
  "delays (fst (index_body rem db cid i r)) =
     replicate (length (resolved (fst (index_body rem db cid i r)))) 200"
  by (auto simp: index_body_def log_index_ok_def log_index_skip_def log_index_error_def
      split: prod.splits response.splits)

lemma attribute_loop_pauses:
  "delays (fst (for_each (attribute_body rem db cid) as r)) =
     replicate (length (resolved (fst (for_each (attribute_body rem db cid) as r)))) 100"
proof (induction as arbitrary: r)
  case Nil
  show ?case by simp
next
  case (Cons a as)
  show ?case
    using attribute_body_pauses [of rem db cid a r]
      Cons.IH [of "snd (attribute_body rem db cid a r)"]
    by (simp add: for_each_Cons delays_append resolved_append replicate_add)
qed

lemma index_loop_pauses:
  "delays (fst (for_each (index_body rem db cid) js r)) =
     replicate (length (resolved (fst (for_each (index_body rem db cid) js r)))) 200"
proof (induction js arbitrary: r)
  case Nil
  show ?case by simp
next
  case (Cons i js)
  show ?case
    using index_body_pauses [of rem db cid i r]
      Cons.IH [of "snd (index_body rem db cid i r)"]
    by (simp add: for_each_Cons delays_append resolved_append replicate_add)
qed

lemma collection_pauses:
  assumes "coll_id c = Some cid" and "cid \<noteq> []"
    and "rem u (GetCollection db cid) = (Resolved, u')"
  shows "delays (fst (collection_body rem db c u)) =
     replicate (length (resolved
        (fst (for_each (attribute_body rem db cid) (coll_attributes c) u')))) 100
     @ [3000]
     @ replicate (length (resolved
        (fst (for_each (index_body rem db cid) (coll_indexes c)
           (snd (for_each (attribute_body rem db cid) (coll_attributes c) u')))))) 200"
proof -
  note k = collection_body_resolved [where rem = rem and r = u, OF assms]
  show ?thesis
    unfolding k
    using attribute_loop_pauses [of rem db cid "coll_attributes c" u']
      index_loop_pauses [of rem db cid "coll_indexes c"
        "snd (for_each (attribute_body rem db cid) (coll_attributes c) u')"]
    by (simp add: delays_append)
qed

text \<open>
  Claim C9 as amended. A create call for a field that resolves is followed by the success
  line and the pause of 100 ms, a create call for an index that resolves by the success
  line and the pause of 200 ms. An attempt that is rejected, whether skipped as already
  existing or failed, is followed in its loop by its log line only, without the pause of
  100 ms or 200 ms: the loop goes directly to the next descriptor. A field descriptor of
  an unknown kind gets the warning line and no pause. The pauses of a field loop are one
  pause of 100 ms for each create call that resolved, those of an index loop one pause of
  200 ms for each create call that resolved. In a collection whose lookup resolved, the
  one pause of 3000 ms comes after the whole field loop and before the index loop,
  whatever the outcomes of the field attempts.
\<close>

theorem C9_pauses:
  "(createAttribute db cid a1 = Some q1 \<and> rem r1 q1 = (Resolved, r1') \<longrightarrow>
      attribute_body rem db cid a1 r1 = ([Call q1 Resolved, log_attr_ok a1, Delay 100], r1')
    \<and> for_each (attribute_body rem db cid) (a1 # as1) r1 =
        (Call q1 Resolved # log_attr_ok a1 # Delay 100
           # fst (for_each (attribute_body rem db cid) as1 r1'),
         snd (for_each (attribute_body rem db cid) as1 r1')))
   \<and> (createAttribute db cid a2 = Some q2 \<and> rem r2 q2 = (Rejected m2, r2') \<longrightarrow>
      for_each (attribute_body rem db cid) (a2 # as2) r2 =
        (Call q2 (Rejected m2)
           # (if js_includes m2 ''already exists'' then log_attr_skip a2
              else log_attr_error a2 m2)
           # fst (for_each (attribute_body rem db cid) as2 r2'),
         snd (for_each (attribute_body rem db cid) as2 r2')))
   \<and> (createAttribute db cid a3 = None \<longrightarrow>
      for_each (attribute_body rem db cid) (a3 # as3) r3 =
        (log_unknown_type a3 # fst (for_each (attribute_body rem db cid) as3 r3),
         snd (for_each (attribute_body rem db cid) as3 r3)))
   \<and> delays (fst (attribute_body rem db cid a r)) =
       (case createAttribute db cid a of
          None \<Rightarrow> []
        | Some q \<Rightarrow> if fst (rem r q) = Resolved then [100] else [])
   \<and> delays (fst (for_each (attribute_body rem db cid) as r)) =
       replicate (length (resolved (fst (for_each (attribute_body rem db cid) as r)))) 100
   \<and> (rem s1 (createIndex db cid i1) = (Resolved, s1') \<longrightarrow>
      index_body rem db cid i1 s1 =
        ([Call (createIndex db cid i1) Resolved, log_index_ok i1, Delay 200], s1')
    \<and> for_each (index_body rem db cid) (i1 # js1) s1 =
        (Call (createIndex db cid i1) Resolved # log_index_ok i1 # Delay 200
           # fst (for_each (index_body rem db cid) js1 s1'),
         snd (for_each (index_body rem db cid) js1 s1')))
   \<and> (rem s2 (createIndex db cid i2) = (Rejected n2, s2') \<longrightarrow>
      for_each (index_body rem db cid) (i2 # js2) s2 =
        (Call (createIndex db cid i2) (Rejected n2)
           # (if js_includes n2 ''already exists'' then log_index_skip i2
              else log_index_error i2 n2)
           # fst (for_each (index_body rem db cid) js2 s2'),
         snd (for_each (index_body rem db cid) js2 s2')))
   \<and> delays (fst (index_body rem db cid i s)) =
       (if fst (rem s (createIndex db cid i)) = Resolved then [200] else [])
   \<and> delays (fst (for_each (index_body rem db cid) js s)) =
       replicate (length (resolved (fst (for_each (index_body rem db cid) js s)))) 200
   \<and> (coll_id c = Some cid \<and> cid \<noteq> [] \<and> rem u (GetCollection db cid) = (Resolved, u') \<longrightarrow>
      fst (collection_body rem db c u) =
        [log_collection c, Call (GetCollection db cid) Resolved, log_found c, log_process c]
        @ fst (for_each (attribute_body rem db cid) (coll_attributes c) u')
        @ [log_wait, Delay 3000]
        @ (if coll_indexes c = [] then []
           else log_index c # fst (for_each (index_body rem db cid) (coll_indexes c)
                  (snd (for_each (attribute_body rem db cid) (coll_attributes c) u'))))
    \<and> delays (fst (collection_body rem db c u)) =
        replicate (length (resolved
           (fst (for_each (attribute_body rem db cid) (coll_attributes c) u')))) 100
        @ [3000]
        @ replicate (length (resolved
           (fst (for_each (index_body rem db cid) (coll_indexes c)
              (snd (for_each (attribute_body rem db cid) (coll_attributes c) u')))))) 200)"
proof -
  have f1: "createAttribute db cid a1 = Some q1 \<and> rem r1 q1 = (Resolved, r1') \<longrightarrow>
      attribute_body rem db cid a1 r1 = ([Call q1 Resolved, log_attr_ok a1, Delay 100], r1')
    \<and> for_each (attribute_body rem db cid) (a1 # as1) r1 =
        (Call q1 Resolved # log_attr_ok a1 # Delay 100
           # fst (for_each (attribute_body rem db cid) as1 r1'),
         snd (for_each (attribute_body rem db cid) as1 r1'))"
    by (simp add: for_each_Cons attribute_body_def)
  have f2: "createAttribute db cid a2 = Some q2 \<and> rem r2 q2 = (Rejected m2, r2') \<longrightarrow>
      for_each (attribute_body rem db cid) (a2 # as2) r2 =
        (Call q2 (Rejected m2)
           # (if js_includes m2 ''already exists'' then log_attr_skip a2
              else log_attr_error a2 m2)
           # fst (for_each (attribute_body rem db cid) as2 r2'),
         snd (for_each (attribute_body rem db cid) as2 r2'))"
    by (simp add: for_each_Cons attribute_body_def attribute_conflict_test)
  have f3: "createAttribute db cid a3 = None \<longrightarrow>
      for_each (attribute_body rem db cid) (a3 # as3) r3 =
        (log_unknown_type a3 # fst (for_each (attribute_body rem db cid) as3 r3),
         snd (for_each (attribute_body rem db cid) as3 r3))"
    by (simp add: for_each_Cons attribute_body_def)
  have x1: "rem s1 (createIndex db cid i1) = (Resolved, s1') \<longrightarrow>
      index_body rem db cid i1 s1 =
        ([Call (createIndex db cid i1) Resolved, log_index_ok i1, Delay 200], s1')
    \<and> for_each (index_body rem db cid) (i1 # js1) s1 =
        (Call (createIndex db cid i1) Resolved # log_index_ok i1 # Delay 200
           # fst (for_each (index_body rem db cid) js1 s1'),
         snd (for_each (index_body rem db cid) js1 s1'))"
    by (simp add: for_each_Cons index_body_def)
  have x2: "rem s2 (createIndex db cid i2) = (Rejected n2, s2') \<longrightarrow>
      for_each (index_body rem db cid) (i2 # js2) s2 =
        (Call (createIndex db cid i2) (Rejected n2)
           # (if js_includes n2 ''already exists'' then log_index_skip i2
              else log_index_error i2 n2)
           # fst (for_each (index_body rem db cid) js2 s2'),
         snd (for_each (index_body rem db cid) js2 s2'))"
    by (simp add: for_each_Cons index_body_def index_conflict_test)
  have c: "coll_id c = Some cid \<and> cid \<noteq> [] \<and> rem u (GetCollection db cid) = (Resolved, u') \<longrightarrow>
      fst (collection_body rem db c u) =
        [log_collection c, Call (GetCollection db cid) Resolved, log_found c, log_process c]
        @ fst (for_each (attribute_body rem db cid) (coll_attributes c) u')
        @ [log_wait, Delay 3000]
        @ (if coll_indexes c = [] then []
           else log_index c # fst (for_each (index_body rem db cid) (coll_indexes c)
                  (snd (for_each (attribute_body rem db cid) (coll_attributes c) u'))))
    \<and> delays (fst (collection_body rem db c u)) =
        replicate (length (resolved
           (fst (for_each (attribute_body rem db cid) (coll_attributes c) u')))) 100
        @ [3000]
        @ replicate (length (resolved
           (fst (for_each (index_body rem db cid) (coll_indexes c)
              (snd (for_each (attribute_body rem db cid) (coll_attributes c) u')))))) 200"
    using collection_body_resolved [of c cid rem u db u'] collection_pauses [of c cid rem u db u']
    by simp
  show ?thesis
    using f1 f2 f3 x1 x2 c
      attribute_body_delays [of rem db cid a r] index_body_delays [of rem db cid i s]
      attribute_loop_pauses [of rem db cid as r] index_loop_pauses [of rem db cid js s]
    by blast
qed

theorem C9_pauses_witness:
  "createAttribute (Some ''main'') ''tags'' (tags_attributes ! 1) = Some (CreateIntegerAttribute (Some ''main'') ''tags'' ''count'' True JNull JNull JNull (JBool False))
   \<and> (store_remote ''not found'' ''already exists'') name_only_store (CreateIntegerAttribute (Some ''main'') ''tags'' ''count'' True JNull JNull JNull (JBool False)) = (Resolved, (name_only_store\<lparr>attribute_keys := [(''tags'', ''name''), (''tags'', ''count'')]\<rparr>))
   \<and> for_each (attribute_body (store_remote ''not found'' ''already exists'') (Some ''main'') ''tags'') (tags_attributes ! 1 # []) name_only_store =
        (Call (CreateIntegerAttribute (Some ''main'') ''tags'' ''count'' True JNull JNull JNull (JBool False)) Resolved # log_attr_ok (tags_attributes ! 1) # Delay 100
           # fst (for_each (attribute_body (store_remote ''not found'' ''already exists'') (Some ''main'') ''tags'') [] (name_only_store\<lparr>attribute_keys := [(''tags'', ''name''), (''tags'', ''count'')]\<rparr>)),
         snd (for_each (attribute_body (store_remote ''not found'' ''already exists'') (Some ''main'') ''tags'') [] (name_only_store\<lparr>attribute_keys := [(''tags'', ''name''), (''tags'', ''count'')]\<rparr>)))
   \<and> createAttribute (Some ''main'') ''tags'' (tags_attributes ! 0) = Some (CreateStringAttribute (Some ''main'') ''tags'' ''name'' (JNum 50) True JNull (JBool False))
   \<and> (store_remote ''not found'' ''already exists'') name_only_store (CreateStringAttribute (Some ''main'') ''tags'' ''name'' (JNum 50) True JNull (JBool False)) = (Rejected ''already exists'', name_only_store)
   \<and> for_each (attribute_body (store_remote ''not found'' ''already exists'') (Some ''main'') ''tags'') (tags_attributes ! 0 # [tags_attributes ! 1]) name_only_store =
        (Call (CreateStringAttribute (Some ''main'') ''tags'' ''name'' (JNum 50) True JNull (JBool False)) (Rejected ''already exists'')
           # (if js_includes ''already exists'' ''already exists''
              then log_attr_skip (tags_attributes ! 0)
              else log_attr_error (tags_attributes ! 0) ''already exists'')
           # fst (for_each (attribute_body (store_remote ''not found'' ''already exists'') (Some ''main'') ''tags'') [tags_attributes ! 1] name_only_store),
         snd (for_each (attribute_body (store_remote ''not found'' ''already exists'') (Some ''main'') ''tags'') [tags_attributes ! 1] name_only_store))
   \<and> createAttribute (Some ''main'') ''tags'' json_attr = None
   \<and> for_each (attribute_body (store_remote ''not found'' ''already exists'') (Some ''main'') ''tags'') (json_attr # []) name_only_store =
        (log_unknown_type json_attr # fst (for_each (attribute_body (store_remote ''not found'' ''already exists'') (Some ''main'') ''tags'') [] name_only_store),
         snd (for_each (attribute_body (store_remote ''not found'' ''already exists'') (Some ''main'') ''tags'') [] name_only_store))
   \<and> (store_remote ''not found'' ''already exists'') name_only_store (createIndex (Some ''main'') ''tags'' (tags_indexes ! 0)) = (Resolved, (name_only_store\<lparr>index_keys := [(''tags'', ''name_index'')]\<rparr>))
   \<and> for_each (index_body (store_remote ''not found'' ''already exists'') (Some ''main'') ''tags'') (tags_indexes ! 0 # []) name_only_store =
        (Call (createIndex (Some ''main'') ''tags'' (tags_indexes ! 0)) Resolved # log_index_ok (tags_indexes ! 0) # Delay 200
           # fst (for_each (index_body (store_remote ''not found'' ''already exists'') (Some ''main'') ''tags'') [] (name_only_store\<lparr>index_keys := [(''tags'', ''name_index'')]\<rparr>)),
         snd (for_each (index_body (store_remote ''not found'' ''already exists'') (Some ''main'') ''tags'') [] (name_only_store\<lparr>index_keys := [(''tags'', ''name_index'')]\<rparr>)))
   \<and> (store_remote ''not found'' ''already exists'') tags_store (createIndex (Some ''main'') ''tags'' (tags_indexes ! 0)) = (Rejected ''already exists'', tags_store)
   \<and> for_each (index_body (store_remote ''not found'' ''already exists'') (Some ''main'') ''tags'') (tags_indexes ! 0 # []) tags_store =
        (Call (createIndex (Some ''main'') ''tags'' (tags_indexes ! 0)) (Rejected ''already exists'')
           # (if js_includes ''already exists'' ''already exists''
              then log_index_skip (tags_indexes ! 0)
              else log_index_error (tags_indexes ! 0) ''already exists'')
           # fst (for_each (index_body (store_remote ''not found'' ''already exists'') (Some ''main'') ''tags'') [] tags_store),
         snd (for_each (index_body (store_remote ''not found'' ''already exists'') (Some ''main'') ''tags'') [] tags_store))
   \<and> coll_id (tags_collection (Some ''tags'')) = Some ''tags'' \<and> ''tags'' \<noteq> []
   \<and> (store_remote ''not found'' ''already exists'') name_only_store (GetCollection (Some ''main'') ''tags'') = (Resolved, name_only_store)
   \<and> delays (fst (collection_body (store_remote ''not found'' ''already exists'') (Some ''main'') (tags_collection (Some ''tags'')) name_only_store)) = [100, 3000, 200]"
proof -
  have h1: "createAttribute (Some ''main'') ''tags'' (tags_attributes ! 1) = Some (CreateIntegerAttribute (Some ''main'') ''tags'' ''count'' True JNull JNull JNull (JBool False))"
    by (simp add: createAttribute_def tags_attributes_def js_or_def)
  have h2: "(store_remote ''not found'' ''already exists'') name_only_store (CreateIntegerAttribute (Some ''main'') ''tags'' ''count'' True JNull JNull JNull (JBool False)) = (Resolved, (name_only_store\<lparr>attribute_keys := [(''tags'', ''name''), (''tags'', ''count'')]\<rparr>))"
    by (simp add: add_attribute_def name_only_store_def)
  have h3: "createAttribute (Some ''main'') ''tags'' (tags_attributes ! 0) = Some (CreateStringAttribute (Some ''main'') ''tags'' ''name'' (JNum 50) True JNull (JBool False))"
    by (simp add: createAttribute_def tags_attributes_def js_or_def)
  have h4: "(store_remote ''not found'' ''already exists'') name_only_store (CreateStringAttribute (Some ''main'') ''tags'' ''name'' (JNum 50) True JNull (JBool False)) = (Rejected ''already exists'', name_only_store)"
    by (simp add: add_attribute_def name_only_store_def)
  have h5: "createAttribute (Some ''main'') ''tags'' json_attr = None"
    by (simp add: createAttribute_def json_attr_def)
  have h6: "(store_remote ''not found'' ''already exists'') name_only_store (createIndex (Some ''main'') ''tags'' (tags_indexes ! 0)) = (Resolved, (name_only_store\<lparr>index_keys := [(''tags'', ''name_index'')]\<rparr>))"
    by (simp add: createIndex_def tags_indexes_def add_index_def name_only_store_def)
  have h7: "(store_remote ''not found'' ''already exists'') tags_store (createIndex (Some ''main'') ''tags'' (tags_indexes ! 0)) = (Rejected ''already exists'', tags_store)"
    by (simp add: createIndex_def tags_indexes_def add_index_def tags_store_def)
  have h8: "coll_id (tags_collection (Some ''tags'')) = Some ''tags''"
    by (simp add: tags_collection_def)
  have h9: "''tags'' \<noteq> []" by simp
  have h10: "(store_remote ''not found'' ''already exists'') name_only_store (GetCollection (Some ''main'') ''tags'')
      = (Resolved, name_only_store)"
    by (simp add: name_only_store_def)
  note t = C9_pauses [where rem = "store_remote ''not found'' ''already exists''" and db = "Some ''main''" and cid = "''tags''"
      and ?a1.0 = "tags_attributes ! 1" and ?q1.0 = "CreateIntegerAttribute (Some ''main'') ''tags'' ''count'' True JNull JNull JNull (JBool False)" and ?r1.0 = name_only_store
      and r1' = "name_only_store\<lparr>attribute_keys := [(''tags'', ''name''), (''tags'', ''count'')]\<rparr>" and ?as1.0 = "[]"
      and ?a2.0 = "tags_attributes ! 0" and ?q2.0 = "CreateStringAttribute (Some ''main'') ''tags'' ''name'' (JNum 50) True JNull (JBool False)" and ?r2.0 = name_only_store
      and r2' = name_only_store and ?m2.0 = "''already exists''"
      and ?as2.0 = "[tags_attributes ! 1]"
      and ?a3.0 = json_attr and ?as3.0 = "[]" and ?r3.0 = name_only_store
      and ?i1.0 = "tags_indexes ! 0" and ?s1.0 = name_only_store and s1' = "name_only_store\<lparr>index_keys := [(''tags'', ''name_index'')]\<rparr>"
      and ?js1.0 = "[]"
      and ?i2.0 = "tags_indexes ! 0" and ?s2.0 = tags_store and s2' = tags_store
      and ?n2.0 = "''already exists''" and ?js2.0 = "[]"
      and c = "tags_collection (Some ''tags'')" and u = name_only_store and u' = name_only_store]
  from t h1 h2 have c1: "for_each (attribute_body (store_remote ''not found'' ''already exists'') (Some ''main'') ''tags'') (tags_attributes ! 1 # []) name_only_store =
        (Call (CreateIntegerAttribute (Some ''main'') ''tags'' ''count'' True JNull JNull JNull (JBool False)) Resolved # log_attr_ok (tags_attributes ! 1) # Delay 100
           # fst (for_each (attribute_body (store_remote ''not found'' ''already exists'') (Some ''main'') ''tags'') [] (name_only_store\<lparr>attribute_keys := [(''tags'', ''name''), (''tags'', ''count'')]\<rparr>)),
         snd (for_each (attribute_body (store_remote ''not found'' ''already exists'') (Some ''main'') ''tags'') [] (name_only_store\<lparr>attribute_keys := [(''tags'', ''name''), (''tags'', ''count'')]\<rparr>)))"
    by blast
  from t h3 h4 have c2: "for_each (attribute_body (store_remote ''not found'' ''already exists'') (Some ''main'') ''tags'') (tags_attributes ! 0 # [tags_attributes ! 1])
        name_only_store =
        (Call (CreateStringAttribute (Some ''main'') ''tags'' ''name'' (JNum 50) True JNull (JBool False)) (Rejected ''already exists'')
           # (if js_includes ''already exists'' ''already exists''
              then log_attr_skip (tags_attributes ! 0)
              else log_attr_error (tags_attributes ! 0) ''already exists'')
           # fst (for_each (attribute_body (store_remote ''not found'' ''already exists'') (Some ''main'') ''tags'') [tags_attributes ! 1] name_only_store),
         snd (for_each (attribute_body (store_remote ''not found'' ''already exists'') (Some ''main'') ''tags'') [tags_attributes ! 1] name_only_store))"
    by blast
  from t h5 have c3: "for_each (attribute_body (store_remote ''not found'' ''already exists'') (Some ''main'') ''tags'') (json_attr # []) name_only_store =
        (log_unknown_type json_attr # fst (for_each (attribute_body (store_remote ''not found'' ''already exists'') (Some ''main'') ''tags'') [] name_only_store),
         snd (for_each (attribute_body (store_remote ''not found'' ''already exists'') (Some ''main'') ''tags'') [] name_only_store))"
    by blast
  from t h6 have c4: "for_each (index_body (store_remote ''not found'' ''already exists'') (Some ''main'') ''tags'') (tags_indexes ! 0 # []) name_only_store =
        (Call (createIndex (Some ''main'') ''tags'' (tags_indexes ! 0)) Resolved # log_index_ok (tags_indexes ! 0) # Delay 200
           # fst (for_each (index_body (store_remote ''not found'' ''already exists'') (Some ''main'') ''tags'') [] (name_only_store\<lparr>index_keys := [(''tags'', ''name_index'')]\<rparr>)),
         snd (for_each (index_body (store_remote ''not found'' ''already exists'') (Some ''main'') ''tags'') [] (name_only_store\<lparr>index_keys := [(''tags'', ''name_index'')]\<rparr>)))"
    by blast
  from t h7 have c5: "for_each (index_body (store_remote ''not found'' ''already exists'') (Some ''main'') ''tags'') (tags_indexes ! 0 # []) tags_store =
        (Call (createIndex (Some ''main'') ''tags'' (tags_indexes ! 0)) (Rejected ''already exists'')
           # (if js_includes ''already exists'' ''already exists''
              then log_index_skip (tags_indexes ! 0)
              else log_index_error (tags_indexes ! 0) ''already exists'')
           # fst (for_each (index_body (store_remote ''not found'' ''already exists'') (Some ''main'') ''tags'') [] tags_store),
         snd (for_each (index_body (store_remote ''not found'' ''already exists'') (Some ''main'') ''tags'') [] tags_store))"
    by blast
  from t h8 h9 h10 have c6: "delays (fst (collection_body (store_remote ''not found'' ''already exists'') (Some ''main'') (tags_collection (Some ''tags''))
        name_only_store)) =
        replicate (length (resolved (fst (for_each (attribute_body (store_remote ''not found'' ''already exists'') (Some ''main'') ''tags'') (coll_attributes (tags_collection (Some ''tags'')))
           name_only_store)))) 100
        @ [3000]
        @ replicate (length (resolved (fst (for_each (index_body (store_remote ''not found'' ''already exists'') (Some ''main'') ''tags'') (coll_indexes (tags_collection (Some ''tags'')))
           (snd (for_each (attribute_body (store_remote ''not found'' ''already exists'') (Some ''main'') ''tags'') (coll_attributes (tags_collection (Some ''tags''))) name_only_store)))))) 200"
    by blast
  have d: "delays (fst (collection_body (store_remote ''not found'' ''already exists'') (Some ''main'') (tags_collection (Some ''tags'')) name_only_store))
      = [100, 3000, 200]"
    unfolding c6
    by (simp add: for_each_Cons attribute_body_def index_body_def
        createAttribute_def createIndex_def tags_collection_def tags_attributes_def
        tags_indexes_def js_or_def add_attribute_def add_index_def name_only_store_def
        log_attr_ok_def log_attr_skip_def log_index_ok_def)
  from h1 h2 c1 h3 h4 c2 h5 c3 h6 c4 h7 c5 h8 h9 h10 d show ?thesis by blast
qed

subsection \<open>A rejected lookup\<close>





end
